theory Spec2Isabelle
  imports Complex_Main "HOL-Library.Word"
begin

section \<open>Python values and library outcomes\<close>

text \<open>
  The program is one Streamlit script, \<^verbatim>\<open>app.py\<close>. Python \<^verbatim>\<open>str\<close> values are
  modelled as \<^typ>\<open>string\<close>, a non-ASCII character being the bytes of its UTF-8 encoding.
  The two values the script keeps in optional positions (\<^verbatim>\<open>None\<close> or a \<^verbatim>\<open>str\<close>)
  are a datatype of their own, with Python's truth test: \<^verbatim>\<open>None\<close> and the empty string
  are false.
\<close>

type_synonym byte = "8 word"

datatype pyval = PyNone | PyStr string

fun truthy :: "pyval \<Rightarrow> bool" where
  "truthy PyNone = False"
| "truthy (PyStr t) = (t \<noteq> [])"

text \<open>\<^verbatim>\<open>str(v)\<close>, which is what an f-string inserts.\<close>

fun py_str :: "pyval \<Rightarrow> string" where
  "py_str PyNone = ''None''"
| "py_str (PyStr t) = t"

text \<open>
  A call into a library either returns a value or raises an \<^verbatim>\<open>Exception\<close>, of which
  the script only ever reads \<^verbatim>\<open>str(e)\<close>.
\<close>

datatype 'a outcome = Returns 'a | Raises string

text \<open>
  A script run ends early on \<^verbatim>\<open>st.stop()\<close>, on \<^verbatim>\<open>st.rerun()\<close> and on an exception
  that nothing catches; \<^verbatim>\<open>Inr\<close> is the normal return of a function.
\<close>

datatype interrupt = Stopped | Rerun | Crashed string

type_synonym 'a flow = "interrupt + 'a"

section \<open>Configuration settings\<close>

definition newline :: char where
  "newline = CHR 0x0A"

text \<open>The emoji of the labels, as UTF-8.\<close>

definition sheaf_of_rice :: string where
  "sheaf_of_rice = [CHR 0xF0, CHR 0x9F, CHR 0x8C, CHR 0xBE]"

definition clipboard :: string where
  "clipboard = [CHR 0xF0, CHR 0x9F, CHR 0x93, CHR 0x8B]"

definition page_facing_up :: string where
  "page_facing_up = [CHR 0xF0, CHR 0x9F, CHR 0x93, CHR 0x84]"

definition wastebasket :: string where
  "wastebasket = [CHR 0xF0, CHR 0x9F, CHR 0x97, CHR 0x91, CHR 0xEF, CHR 0xB8, CHR 0x8F]"

definition magnifying_glass :: string where
  "magnifying_glass = [CHR 0xF0, CHR 0x9F, CHR 0x94, CHR 0x8D]"

record page_config =
  page_title :: string
  page_icon :: string
  layout :: string
  initial_sidebar_state :: string

definition PAGE_CONFIG :: page_config where
  "PAGE_CONFIG = \<lparr>page_title = ''Rice Quality Analyzer'', page_icon = sheaf_of_rice,
     layout = ''wide'', initial_sidebar_state = ''expanded''\<rparr>"

definition ALLOWED_FILE_TYPES :: "string list" where
  "ALLOWED_FILE_TYPES = [''png'', ''jpg'', ''jpeg'']"

definition CSS_STYLES :: string where
  "CSS_STYLES = newline # concat (map (\<lambda>l. l @ [newline])
    [''<style>'',
     ''    .main { background-color: #f4f9f9; color: #000000; }'',
     ''    .sidebar .sidebar-content { background-color: #d1e7dd; }'',
     ''    .stTextInput textarea { color: #000000 !important; }'',
     ''    .stButton>button { '',
     ''        background-color: #21eeef; '',
     ''        color: white; '',
     ''        font-size: 16px; '',
     ''        border-radius: 5px; '',
     ''    }'',
     ''    .report-container {'',
     ''        background-color: #ffffff;'',
     ''        border-radius: 15px;'',
     ''        padding: 20px;'',
     ''        margin-top: 20px;'',
     ''        box-shadow: 0 4px 6px rgba(0, 0, 0, 0.1);'',
     ''        border-left: 5px solid #21eeef;'',
     ''    }'',
     ''    .report-text {'',
     ''        font-family: '' @ [CHR 0x27] @ ''Arial'' @ [CHR 0x27] @ '', sans-serif;'',
     ''        font-size: 14px;'',
     ''        line-height: 1.6;'',
     ''        color: #2c3e50;'',
     ''    }'',
     ''</style>''])"

section \<open>The session: state, page and libraries\<close>

record upload =
  file_name :: string
  file_data :: "byte list"

text \<open>
  A PIL image: \<^verbatim>\<open>image.format\<close> is a \<^verbatim>\<open>str\<close> or \<^verbatim>\<open>None\<close>; the raster is opaque to
  the script.
\<close>

record image =
  format :: pyval
  raster :: "byte list"

datatype client = Groq pyval

record request =
  model :: string
  prompt :: string
  image_url :: string
  temperature :: rat
  max_tokens :: nat
  top_p :: rat

text \<open>A choice of a chat completion, with its \<^verbatim>\<open>message.content\<close>.\<close>

datatype choice = Choice (message_content: string)

record response =
  choices :: "choice list"

datatype style = Title_style | BodyText_style

datatype flowable = Paragraph string style | Spacer nat nat

text \<open>An \<^verbatim>\<open>io.BytesIO\<close>: what was written, and the stream position.\<close>

record buffer =
  getvalue :: "byte list"
  position :: nat

datatype place = Main_area | Sidebar

datatype element =
    Page_config page_config
  | Markdown string bool
  | Title string
  | Subheader string
  | Error_box string
  | Download_button string buffer string string
  | Button string
  | File_uploader string "string list"
  | Image_box image string bool
  | Spinner string

text \<open>
  What the script does not own is a parameter of the model: the process environment and
  the \<^verbatim>\<open>.env\<close> file, PIL (\<^verbatim>\<open>Image.open\<close>, \<^verbatim>\<open>image.save\<close>), the rendering of an
  image by \<^verbatim>\<open>st.image\<close>, the hosted model behind \<^verbatim>\<open>client.chat.completions.create\<close>
  (its answer may differ from one request to the next, so it also depends on how many
  requests were made before) and reportlab's \<^verbatim>\<open>doc.build\<close>. PIL decodes a given file the
  same way each time. The other Streamlit calls only add an element to the page.
\<close>

record libs =
  environ :: "string \<rightharpoonup> string"
  dotenv :: "string \<rightharpoonup> string"
  image_open :: "upload \<Rightarrow> image outcome"
  image_save :: "image \<Rightarrow> pyval \<Rightarrow> byte list outcome"
  st_image :: "image \<Rightarrow> unit outcome"
  chat_create :: "client \<Rightarrow> nat \<Rightarrow> request \<Rightarrow> response outcome"
  build :: "flowable list \<Rightarrow> byte list outcome"

text \<open>
  The state a script run works on: \<^verbatim>\<open>st.session_state\<close>, the elements this run has put
  on the page with the container each went to, the container in force, and two counters
  that the script does not have, kept to tell how often the hosted model was asked and how
  often \<^verbatim>\<open>generate_pdf_report\<close> was entered.
\<close>

record app =
  session_state :: "string \<rightharpoonup> pyval"
  page :: "(place \<times> element) list"
  container :: place
  api_calls :: nat
  pdf_calls :: nat

text \<open>The widget values of one run, as Streamlit hands them to the script.\<close>

record widgets =
  uploaded :: "upload option"
  clear_clicked :: bool
  analyze_clicked :: bool

definition emit :: "element \<Rightarrow> app \<Rightarrow> app" where
  "emit e s = s\<lparr>page := page s @ [(container s, e)]\<rparr>"

text \<open>\<^verbatim>\<open>st.session_state.get(key)\<close> and the attribute read \<^verbatim>\<open>st.session_state.key\<close>.\<close>

definition state_get :: "app \<Rightarrow> string \<Rightarrow> pyval" where
  "state_get s k = (case session_state s k of None \<Rightarrow> PyNone | Some v \<Rightarrow> v)"

definition state_attr :: "app \<Rightarrow> string \<Rightarrow> pyval outcome" where
  "state_attr s k =
     (case session_state s k of
        None \<Rightarrow> Raises (''AttributeError: st.session_state has no attribute '' @ k)
      | Some v \<Rightarrow> Returns v)"

section \<open>Core functions\<close>

definition configure_application :: "app \<Rightarrow> app" where
  "configure_application s = emit (Markdown CSS_STYLES True) (emit (Page_config PAGE_CONFIG) s)"

text \<open>\<^verbatim>\<open>load_dotenv()\<close> adds the variables of the file that the environment lacks.\<close>

definition load_dotenv :: "libs \<Rightarrow> string \<rightharpoonup> string" where
  "load_dotenv L = dotenv L ++ environ L"

definition getenv :: "(string \<rightharpoonup> string) \<Rightarrow> string \<Rightarrow> pyval" where
  "getenv env k = (case env k of None \<Rightarrow> PyNone | Some v \<Rightarrow> PyStr v)"

definition initialize_api_client :: "libs \<Rightarrow> app \<Rightarrow> client flow \<times> app" where
  "initialize_api_client L s =
     (let api_key = getenv (load_dotenv L) ''GROQ_API_KEY'' in
      if \<not> truthy api_key then
        (Inl Stopped, emit (Error_box ''API key not found. Please verify .env configuration.'') s)
      else (Inr (Groq api_key), s))"

subsection \<open>Base64\<close>

definition b64_alphabet :: string where
  "b64_alphabet = ''ABCDEFGHIJKLMNOPQRSTUVWXYZabcdefghijklmnopqrstuvwxyz0123456789+/''"

definition b64_char :: "nat \<Rightarrow> char" where
  "b64_char n = b64_alphabet ! n"

text \<open>
  \<^verbatim>\<open>base64.b64encode(bs).decode('utf-8')\<close>: three bytes give four characters, and a
  last group of one or two bytes is padded with \<^verbatim>\<open>=\<close>. Every index below is under 64.
\<close>

fun b64encode :: "byte list \<Rightarrow> string" where
  "b64encode [] = []"
| "b64encode [a] =
     [b64_char (unat a div 4), b64_char (unat a mod 4 * 16), CHR ''='', CHR ''='']"
| "b64encode [a, b] =
     [b64_char (unat a div 4), b64_char (unat a mod 4 * 16 + unat b div 16),
      b64_char (unat b mod 16 * 4), CHR ''='']"
| "b64encode (a # b # c # rest) =
     [b64_char (unat a div 4), b64_char (unat a mod 4 * 16 + unat b div 16),
      b64_char (unat b mod 16 * 4 + unat c div 64), b64_char (unat c mod 64)]
     @ b64encode rest"

fun index_of :: "'a \<Rightarrow> 'a list \<Rightarrow> nat option" where
  "index_of x [] = None"
| "index_of x (y # ys) = (if x = y then Some 0 else map_option Suc (index_of x ys))"

definition b64_index :: "char \<Rightarrow> nat option" where
  "b64_index c = index_of c b64_alphabet"

text \<open>
  The decoder a receiver of the payload runs (RFC 4648, the alphabet of \<^const>\<open>b64encode\<close>):
  four characters give three bytes, padding is accepted in the last group only, and
  anything else is rejected.
\<close>

fun b64decode :: "string \<Rightarrow> byte list option" where
  "b64decode [] = Some []"
| "b64decode (p # q # r # s # rest) =
     (case (b64_index p, b64_index q) of
        (Some i, Some j) \<Rightarrow>
          (if rest = [] \<and> r = CHR ''='' \<and> s = CHR ''='' then
             Some [of_nat (i * 4 + j div 16)]
           else
             (case b64_index r of
                None \<Rightarrow> None
              | Some k \<Rightarrow>
                  (if rest = [] \<and> s = CHR ''='' then
                     Some [of_nat (i * 4 + j div 16), of_nat (j mod 16 * 16 + k div 4)]
                   else
                     (case b64_index s of
                        None \<Rightarrow> None
                      | Some l \<Rightarrow>
                          map_option
                            (\<lambda>bs. of_nat (i * 4 + j div 16) # of_nat (j mod 16 * 16 + k div 4)
                                    # of_nat (k mod 4 * 64 + l) # bs)
                            (b64decode rest)))))
      | _ \<Rightarrow> None)"
| "b64decode _ = None"

text \<open>
  \<^verbatim>\<open>process_image_data\<close>: both PIL calls are inside the \<^verbatim>\<open>try\<close>; either raising is
  reported with \<^verbatim>\<open>st.error\<close> and answered by \<^verbatim>\<open>(None, None)\<close>.
\<close>

definition process_image_data :: "libs \<Rightarrow> upload \<Rightarrow> app \<Rightarrow> (pyval \<times> pyval) \<times> app" where
  "process_image_data L uploaded_file s =
     (case image_open L uploaded_file of
        Raises e \<Rightarrow> ((PyNone, PyNone), emit (Error_box (''Image processing error: '' @ e)) s)
      | Returns img \<Rightarrow>
          (case image_save L img (format img) of
             Raises e \<Rightarrow> ((PyNone, PyNone), emit (Error_box (''Image processing error: '' @ e)) s)
           | Returns bs \<Rightarrow> ((PyStr (b64encode bs), format img), s)))"

subsection \<open>The document generator\<close>

text \<open>
  \<^verbatim>\<open>s.replace(old, new)\<close>: the occurrences of \<^verbatim>\<open>old\<close> are found from the left and do
  not overlap; \<^verbatim>\<open>skip\<close> counts the characters of an occurrence still to pass over. An
  empty \<^verbatim>\<open>old\<close> matches before every character and at the end.
\<close>

fun replace_scan :: "string \<Rightarrow> string \<Rightarrow> nat \<Rightarrow> string \<Rightarrow> string" where
  "replace_scan old new skip [] = []"
| "replace_scan old new skip (c # cs) =
     (if 0 < skip then replace_scan old new (skip - 1) cs
      else if take (length old) (c # cs) = old then new @ replace_scan old new (length old - 1) cs
      else c # replace_scan old new 0 cs)"

definition py_replace :: "string \<Rightarrow> string \<Rightarrow> string \<Rightarrow> string" where
  "py_replace t old new =
     (if old = [] then new @ concat (map (\<lambda>c. c # new) t) else replace_scan old new 0 t)"

text \<open>The \<^verbatim>\<open>story\<close> handed to \<^verbatim>\<open>doc.build\<close>.\<close>

definition pdf_story :: "string \<Rightarrow> flowable list" where
  "pdf_story report_text =
     [Paragraph ''<b>Rice Quality Report</b>'' Title_style,
      Spacer 1 12,
      Paragraph (py_replace report_text [newline] ''<br/>'') BodyText_style]"

definition buffer_write :: "byte list \<Rightarrow> buffer \<Rightarrow> buffer" where
  "buffer_write bs b =
     \<lparr>getvalue = take (position b) (getvalue b) @ bs @ drop (position b + length bs) (getvalue b),
      position = position b + length bs\<rparr>"

definition buffer_seek :: "nat \<Rightarrow> buffer \<Rightarrow> buffer" where
  "buffer_seek n b = b\<lparr>position := n\<rparr>"

definition BytesIO :: buffer where
  "BytesIO = \<lparr>getvalue = [], position = 0\<rparr>"

text \<open>
  \<^verbatim>\<open>generate_pdf_report\<close> has no \<^verbatim>\<open>try\<close>: \<^verbatim>\<open>report_text.replace\<close> on \<^verbatim>\<open>None\<close> and a
  failure of \<^verbatim>\<open>doc.build\<close> leave the function as exceptions.
\<close>

definition generate_pdf_report :: "libs \<Rightarrow> pyval \<Rightarrow> app \<Rightarrow> buffer outcome \<times> app" where
  "generate_pdf_report L report_text s =
     (let s1 = s\<lparr>pdf_calls := Suc (pdf_calls s)\<rparr> in
      case report_text of
        PyNone \<Rightarrow> (Raises ''AttributeError: NoneType object has no attribute replace'', s1)
      | PyStr t \<Rightarrow>
          (case build L (pdf_story t) of
             Raises e \<Rightarrow> (Raises e, s1)
           | Returns bs \<Rightarrow> (Returns (buffer_seek 0 (buffer_write bs BytesIO)), s1)))"

subsection \<open>The report pipeline\<close>

text \<open>\<^verbatim>\<open>str.lower()\<close> on the ASCII letters, which is what format names are made of.\<close>

definition lower_char :: "char \<Rightarrow> char" where
  "lower_char c =
     (let n = (of_char c :: nat) in if 65 \<le> n \<and> n \<le> 90 then char_of (n + 32) else c)"

fun py_lower :: "pyval \<Rightarrow> string outcome" where
  "py_lower PyNone = Raises ''AttributeError: NoneType object has no attribute lower''"
| "py_lower (PyStr t) = Returns (map lower_char t)"

definition analysis_prompt :: string where
  "analysis_prompt =
     ''Analyze the rice grain image and provide a detailed report including:'' @ [newline] @
     ''1. Rice type classification'' @ [newline] @
     ''2. Quality assessment (broken grains %, discoloration %, impurities %)'' @ [newline] @
     ''3. Foreign object detection'' @ [newline] @
     ''4. Size and shape consistency'' @ [newline] @
     ''5. Recommendations for processing or improvement''"

definition analysis_request :: "string \<Rightarrow> request" where
  "analysis_request url =
     \<lparr>model = ''llama-3.2-11b-vision-preview'', prompt = analysis_prompt, image_url = url,
      temperature = 2 / 10, max_tokens = 400, top_p = 5 / 10\<rparr>"

text \<open>
  \<^verbatim>\<open>generate_rice_report\<close>. The data URL is built before the \<^verbatim>\<open>try\<close>, so
  \<^verbatim>\<open>img_format.lower()\<close> on \<^verbatim>\<open>None\<close> would leave the function as an exception. Inside
  the \<^verbatim>\<open>try\<close> there is one request, and \<^verbatim>\<open>response.choices[0]\<close> on an empty list is
  one of the exceptions the handler reports.
\<close>

definition generate_rice_report :: "libs \<Rightarrow> upload \<Rightarrow> client \<Rightarrow> app \<Rightarrow> pyval outcome \<times> app" where
  "generate_rice_report L uploaded_file cl s =
     (case process_image_data L uploaded_file s of
        ((base64_image, img_format), s1) \<Rightarrow>
          if \<not> truthy base64_image then (Returns PyNone, s1)
          else
            (case py_lower img_format of
               Raises e \<Rightarrow> (Raises e, s1)
             | Returns fmt \<Rightarrow>
                 (let url = ''data:image/'' @ fmt @ '';base64,'' @ py_str base64_image;
                      s2 = s1\<lparr>api_calls := Suc (api_calls s1)\<rparr>
                  in case chat_create L cl (api_calls s1) (analysis_request url) of
                       Raises e \<Rightarrow>
                         (Returns PyNone, emit (Error_box (''API communication error: '' @ e)) s2)
                     | Returns resp \<Rightarrow>
                         (case choices resp of
                            [] \<Rightarrow>
                              (Returns PyNone,
                               emit (Error_box
                                 ''API communication error: list index out of range'') s2)
                          | c # _ \<Rightarrow> (Returns (PyStr (message_content c)), s2)))))"

section \<open>UI components\<close>

definition report_markup :: "string \<Rightarrow> string" where
  "report_markup t =
     ''<div class='' @ [CHR 0x22] @ ''report-container'' @ [CHR 0x22] @ ''><div class='' @
     [CHR 0x22] @ ''report-text'' @ [CHR 0x22] @ ''>'' @ t @ ''</div></div>''"

text \<open>
  \<^verbatim>\<open>display_main_interface\<close>. The report block is entered on the truth of
  \<^verbatim>\<open>st.session_state.get('analysis_result')\<close>; an exception of \<^verbatim>\<open>generate_pdf_report\<close>
  ends the run before the button below is reached. The button, when clicked, pops the key
  and asks for a rerun.
\<close>

definition display_report :: "libs \<Rightarrow> app \<Rightarrow> unit flow \<times> app" where
  "display_report L s =
     (if truthy (state_get s ''analysis_result'') then
        (let s1 = emit (Markdown (''### '' @ clipboard @ '' Analysis Report'') False) s in
         case state_attr s1 ''analysis_result'' of
           Raises e \<Rightarrow> (Inl (Crashed e), s1)
         | Returns v \<Rightarrow>
             (let s2 = emit (Markdown (report_markup (py_str v)) True) s1 in
              case generate_pdf_report L v s2 of
                (Raises e, s3) \<Rightarrow> (Inl (Crashed e), s3)
              | (Returns pdf_report, s3) \<Rightarrow>
                  (Inr (),
                   emit (Download_button (page_facing_up @ '' Download PDF Report'') pdf_report
                           ''rice_quality_report.pdf'' ''application/pdf'') s3)))
      else (Inr (), s))"

definition display_main_interface :: "libs \<Rightarrow> widgets \<Rightarrow> app \<Rightarrow> unit flow \<times> app" where
  "display_main_interface L w s =
     (let s1 = emit (Markdown ''---'' False)
                 (emit (Subheader ''AI-Powered Rice Grain Inspection'')
                   (emit (Title (sheaf_of_rice @ '' Rice Quality Analyzer'')) s))
      in case display_report L s1 of
           (Inl i, s2) \<Rightarrow> (Inl i, s2)
         | (Inr _, s2) \<Rightarrow>
             (let s3 = emit (Button (''Clear Analysis '' @ wastebasket)) s2 in
              if clear_clicked w then
                (Inl Rerun, s3\<lparr>session_state := (session_state s3)(''analysis_result'' := None)\<rparr>)
              else (Inr (), s3)))"

definition features_text :: string where
  "features_text = newline # concat (map (\<lambda>l. ''        '' @ l @ [newline])
     [''- **Rice Type Classification** (e.g., Basmati, Jasmine, Indica)'',
      ''- **Quality Check** (Broken grains %, impurities %, discoloration %)'',
      ''- **Foreign Object Detection** (Husks, stones, debris)'',
      ''- **Grain Size & Shape Analysis**'',
      ''- **Processing Recommendations**'']) @ ''        ''"

text \<open>
  The body of \<^verbatim>\<open>with st.sidebar:\<close>. The preview \<^verbatim>\<open>st.image(Image.open(uploaded_file))\<close>
  is outside every \<^verbatim>\<open>try\<close>. A click on the analyze button stores whatever
  \<^verbatim>\<open>generate_rice_report\<close> returned and asks for a rerun.
\<close>

definition sidebar_body :: "libs \<Rightarrow> client \<Rightarrow> widgets \<Rightarrow> app \<Rightarrow> unit flow \<times> app" where
  "sidebar_body L cl w s =
     (let s1 = emit (File_uploader ''Select an image of rice grains'' ALLOWED_FILE_TYPES)
                 (emit (Subheader ''Upload Rice Image'')
                   (emit (Markdown ''---'' False)
                     (emit (Markdown features_text False)
                       (emit (Markdown ''### Features'' False) s))))
      in case uploaded w of
           None \<Rightarrow> (Inr (), s1)
         | Some uploaded_file \<Rightarrow>
             (case image_open L uploaded_file of
                Raises e \<Rightarrow> (Inl (Crashed e), s1)
              | Returns img \<Rightarrow>
                  (case st_image L img of
                     Raises e \<Rightarrow> (Inl (Crashed e), s1)
                   | Returns _ \<Rightarrow>
                       (let s2 = emit (Button (''Analyze Rice Quality '' @ magnifying_glass))
                                   (emit (Image_box img ''Uploaded Image'' True) s1)
                        in if analyze_clicked w then
                             (let s3 = emit (Spinner
                                  ''Processing image... This may take a few seconds.'') s2
                              in case generate_rice_report L uploaded_file cl s3 of
                                   (Raises e, s4) \<Rightarrow> (Inl (Crashed e), s4)
                                 | (Returns report, s4) \<Rightarrow>
                                     (Inl Rerun,
                                      s4\<lparr>session_state :=
                                           (session_state s4)(''analysis_result'' \<mapsto> report)\<rparr>))
                           else (Inr (), s2)))))"

definition render_sidebar :: "libs \<Rightarrow> client \<Rightarrow> widgets \<Rightarrow> app \<Rightarrow> unit flow \<times> app" where
  "render_sidebar L cl w s =
     (case sidebar_body L cl w (s\<lparr>container := Sidebar\<rparr>) of
        (r, s') \<Rightarrow> (r, s'\<lparr>container := container s\<rparr>))"

section \<open>Application entrypoint\<close>

definition main :: "libs \<Rightarrow> widgets \<Rightarrow> app \<Rightarrow> unit flow \<times> app" where
  "main L w s =
     (case initialize_api_client L (configure_application s) of
        (Inl i, s1) \<Rightarrow> (Inl i, s1)
      | (Inr groq_client, s1) \<Rightarrow>
          (case display_main_interface L w s1 of
             (Inl i, s2) \<Rightarrow> (Inl i, s2)
           | (Inr _, s2) \<Rightarrow> render_sidebar L groq_client w s2))"

text \<open>
  Streamlit runs the script from the top on every interaction, on an empty page and with
  the session state of the run before. A run that asked for a rerun is followed at once by
  another, in which every button reads as not clicked. The number of runs is bounded by
  \<^verbatim>\<open>fuel\<close>; \<^const>\<open>None\<close> says the bound was reached.
\<close>

fun run_script :: "nat \<Rightarrow> libs \<Rightarrow> widgets \<Rightarrow> app \<Rightarrow> (unit flow \<times> app) option" where
  "run_script 0 L w s = None"
| "run_script (Suc fuel) L w s =
     (case main L w (s\<lparr>page := [], container := Main_area\<rparr>) of
        (Inl Rerun, s') \<Rightarrow>
          run_script fuel L (w\<lparr>clear_clicked := False, analyze_clicked := False\<rparr>) s'
      | (r, s') \<Rightarrow> Some (r, s'))"

text \<open>The two states the page tells apart.\<close>

definition result_present :: "app \<Rightarrow> bool" where
  "result_present s = truthy (state_get s ''analysis_result'')"

text \<open>
  Whether a run that starts from this state gets as far as the clear button: it does unless
  a report is shown and \<^verbatim>\<open>doc.build\<close> raises on it.
\<close>

definition clear_button_drawn :: "libs \<Rightarrow> app \<Rightarrow> bool" where
  "clear_button_drawn L s =
     (case state_get s ''analysis_result'' of
        PyNone \<Rightarrow> True
      | PyStr t \<Rightarrow>
          t = [] \<or> (case build L (pdf_story t) of Returns bs \<Rightarrow> True | Raises e \<Rightarrow> False))"

section \<open>What the script relies on in PIL\<close>

text \<open>
  The buffer the image is saved to has no file name, so \<^verbatim>\<open>image.save\<close> cannot take the
  format from an extension: with \<^verbatim>\<open>format=None\<close> it raises. A successful save writes at
  least the header of the file format. PIL sets \<^verbatim>\<open>image.format\<close> on every image it opens
  from a file (it is \<^verbatim>\<open>None\<close> only for images the library creates itself). The script
  relies on these without checking them; they are stated here for the file at hand and
  assumed where a theorem needs them.
\<close>

definition save_needs_format :: "libs \<Rightarrow> upload \<Rightarrow> bool" where
  "save_needs_format L f =
     (case image_open L f of
        Raises e \<Rightarrow> True
      | Returns img \<Rightarrow>
          (case format img of
             PyStr t \<Rightarrow> True
           | PyNone \<Rightarrow> (case image_save L img PyNone of Raises e \<Rightarrow> True | Returns bs \<Rightarrow> False)))"

definition writes_bytes :: "libs \<Rightarrow> upload \<Rightarrow> bool" where
  "writes_bytes L f =
     (case image_open L f of
        Raises e \<Rightarrow> True
      | Returns img \<Rightarrow> image_save L img (format img) \<noteq> Returns [])"

definition format_known :: "libs \<Rightarrow> upload \<Rightarrow> bool" where
  "format_known L f =
     (case image_open L f of Raises e \<Rightarrow> True | Returns img \<Rightarrow> format img \<noteq> PyNone)"

section \<open>Sample session\<close>

text \<open>
  Concrete libraries and inputs on which the theorems below are instantiated: a PIL that
  refuses an empty file and writes back the bytes it read, a hosted model that answers the
  first request and refuses the following ones, and a reportlab that writes a four-byte
  document.
\<close>

definition sample_upload :: upload where
  "sample_upload = \<lparr>file_name = ''rice.png'', file_data = [1, 2, 3, 4]\<rparr>"

definition sample_image :: image where
  "sample_image = \<lparr>format = PyStr ''PNG'', raster = [1, 2, 3, 4]\<rparr>"

definition sample_client :: client where
  "sample_client = Groq (PyStr ''gsk'')"

definition sample_libs :: libs where
  "sample_libs =
     \<lparr>environ = [''GROQ_API_KEY'' \<mapsto> ''gsk''],
      dotenv = Map.empty,
      image_open = (\<lambda>f. if file_data f = [] then Raises ''cannot identify image file''
                         else Returns \<lparr>format = PyStr ''PNG'', raster = file_data f\<rparr>),
      image_save = (\<lambda>img fmt. Returns (raster img)),
      st_image = (\<lambda>img. Returns ()),
      chat_create = (\<lambda>cl n req. if n = 0 then Returns \<lparr>choices = [Choice ''Basmati'']\<rparr>
                               else Raises ''rate limit''),
      build = (\<lambda>story. Returns [37, 80, 68, 70])\<rparr>"

definition sample_app :: app where
  "sample_app =
     \<lparr>session_state = Map.empty, page = [], container = Main_area, api_calls = 0, pdf_calls = 0\<rparr>"

definition sample_widgets :: widgets where
  "sample_widgets = \<lparr>uploaded = Some sample_upload, clear_clicked = False, analyze_clicked = True\<rparr>"

text \<open>
  Variations: a hosted model whose answer is the empty text, one that refuses every request,
  a PIL that opens images without a format (and so cannot save them to a buffer), a file PIL
  cannot read, and a session in which a report is already stored.
\<close>

definition silent_libs :: libs where
  "silent_libs = sample_libs\<lparr>chat_create := (\<lambda>cl n req. Returns \<lparr>choices = [Choice []]\<rparr>)\<rparr>"

definition refusing_libs :: libs where
  "refusing_libs = sample_libs\<lparr>chat_create := (\<lambda>cl n req. Raises ''rate limit'')\<rparr>"

definition formatless_libs :: libs where
  "formatless_libs =
     sample_libs\<lparr>image_open := (\<lambda>f. Returns \<lparr>format = PyNone, raster = file_data f\<rparr>),
       image_save := (\<lambda>img fmt. case fmt of
                        PyNone \<Rightarrow> Raises ''unknown file extension: ''
                      | PyStr t \<Rightarrow> Returns (raster img))\<rparr>"

definition empty_upload :: upload where
  "empty_upload = \<lparr>file_name = ''empty.png'', file_data = []\<rparr>"

definition shown_app :: app where
  "shown_app = sample_app\<lparr>session_state := [''analysis_result'' \<mapsto> PyStr ''old'']\<rparr>"

text \<open>
  The page of a run of the sample session that shows no report and analyses nothing, and the
  error messages on a page.
\<close>

definition idle_page :: "(place \<times> element) list" where
  "idle_page =
     [(Main_area, Page_config PAGE_CONFIG),
      (Main_area, Markdown CSS_STYLES True),
      (Main_area, Title (sheaf_of_rice @ '' Rice Quality Analyzer'')),
      (Main_area, Subheader ''AI-Powered Rice Grain Inspection''),
      (Main_area, Markdown ''---'' False),
      (Main_area, Button (''Clear Analysis '' @ wastebasket)),
      (Sidebar, Markdown ''### Features'' False),
      (Sidebar, Markdown features_text False),
      (Sidebar, Markdown ''---'' False),
      (Sidebar, Subheader ''Upload Rice Image''),
      (Sidebar, File_uploader ''Select an image of rice grains'' ALLOWED_FILE_TYPES),
      (Sidebar, Image_box sample_image ''Uploaded Image'' True),
      (Sidebar, Button (''Analyze Rice Quality '' @ magnifying_glass))]"

fun errors_shown :: "(place \<times> element) list \<Rightarrow> string list" where
  "errors_shown [] = []"
| "errors_shown ((p, Error_box msg) # es) = msg # errors_shown es"
| "errors_shown (e # es) = errors_shown es"

section \<open>Base64: decoding undoes encoding\<close>

lemma index_of_nth: "distinct xs \<Longrightarrow> n < length xs \<Longrightarrow> index_of (xs ! n) xs = Some n"
proof (induction xs arbitrary: n)
  case Nil
  then show ?case by simp
next
  case (Cons y ys)
  then show ?case by (cases n) auto
qed

lemma b64_alphabet_length: "length b64_alphabet = 64"
  by (simp add: b64_alphabet_def)

lemma b64_alphabet_distinct: "distinct b64_alphabet"
  by (simp add: b64_alphabet_def)

lemma b64_index_char: "n < 64 \<Longrightarrow> b64_index (b64_char n) = Some n"
  by (simp add: b64_index_def b64_char_def index_of_nth b64_alphabet_distinct b64_alphabet_length)

lemma b64_pad_not_in_alphabet: "CHR ''='' \<notin> set b64_alphabet"
  by (simp add: b64_alphabet_def)

lemma b64_char_not_pad: "n < 64 \<Longrightarrow> b64_char n \<noteq> CHR ''=''"
proof
  assume n: "n < 64" and e: "b64_char n = CHR ''=''"
  from n have "b64_alphabet ! n \<in> set b64_alphabet"
    by (intro nth_mem) (simp add: b64_alphabet_length)
  with e have "CHR ''='' \<in> set b64_alphabet"
    by (simp add: b64_char_def)
  with b64_pad_not_in_alphabet show False by contradiction
qed

lemma unat_byte_less: "unat (a :: byte) < 256"
  using unsigned_less [of a] by simp

lemma sextets:
  fixes a b c :: nat
  assumes "a < 256" "b < 256" "c < 256"
  shows "a div 4 < 64" "a mod 4 * 16 < 64" "a mod 4 * 16 + b div 16 < 64"
    "b mod 16 * 4 < 64" "b mod 16 * 4 + c div 64 < 64" "c mod 64 < 64"
  using assms by auto

lemma regroup1:
  fixes a :: nat
  shows "a div 4 * 4 + (a mod 4 * 16) div 16 = a"
  by simp

lemma regroup2:
  fixes a b :: nat
  assumes "b < 256"
  shows "a div 4 * 4 + (a mod 4 * 16 + b div 16) div 16 = a"
proof -
  from assms have "b div 16 < 16" by simp
  then have "(a mod 4 * 16 + b div 16) div 16 = a mod 4" by simp
  then show ?thesis by simp
qed

lemma regroup3:
  fixes a b :: nat
  assumes "b < 256"
  shows "(a mod 4 * 16 + b div 16) mod 16 * 16 + (b mod 16 * 4) div 4 = b"
proof -
  from assms have "b div 16 < 16" by simp
  then have "(a mod 4 * 16 + b div 16) mod 16 = b div 16" by simp
  then show ?thesis by simp
qed

lemma regroup4:
  fixes a b c :: nat
  assumes "b < 256" "c < 256"
  shows "(a mod 4 * 16 + b div 16) mod 16 * 16 + (b mod 16 * 4 + c div 64) div 4 = b"
proof -
  from assms have "b div 16 < 16" and "c div 64 < 4" by simp_all
  then have "(a mod 4 * 16 + b div 16) mod 16 = b div 16"
    and "(b mod 16 * 4 + c div 64) div 4 = b mod 16" by simp_all
  then show ?thesis by simp
qed

lemma regroup5:
  fixes b c :: nat
  assumes "c < 256"
  shows "(b mod 16 * 4 + c div 64) mod 4 * 64 + c mod 64 = c"
proof -
  from assms have "c div 64 < 4" by simp
  then have "(b mod 16 * 4 + c div 64) mod 4 = c div 64" by simp
  then show ?thesis by simp
qed

lemma byte_of_unat: "n = unat a \<Longrightarrow> (of_nat n :: byte) = a"
  by simp

lemma b64decode_pad2:
  assumes "i < 64" "j < 64"
  shows "b64decode [b64_char i, b64_char j, CHR ''='', CHR ''=''] = Some [of_nat (i * 4 + j div 16)]"
  using assms by (simp add: b64_index_char)

lemma b64decode_pad1:
  assumes "i < 64" "j < 64" "k < 64"
  shows "b64decode [b64_char i, b64_char j, b64_char k, CHR ''='']
    = Some [of_nat (i * 4 + j div 16), of_nat (j mod 16 * 16 + k div 4)]"
  using assms by (simp add: b64_index_char b64_char_not_pad)

lemma b64decode_quad:
  assumes "i < 64" "j < 64" "k < 64" "l < 64"
  shows "b64decode (b64_char i # b64_char j # b64_char k # b64_char l # rest)
    = map_option (\<lambda>bs. of_nat (i * 4 + j div 16) # of_nat (j mod 16 * 16 + k div 4)
                          # of_nat (k mod 4 * 64 + l) # bs) (b64decode rest)"
  using assms by (simp add: b64_index_char b64_char_not_pad)

lemma b64decode_b64encode: "b64decode (b64encode bs) = Some bs"
proof (induction bs rule: b64encode.induct)
  case 1
  show ?case by simp
next
  case (2 a)
  note u = unat_byte_less [of a]
  have "b64decode (b64encode [a])
      = Some [of_nat (unat a div 4 * 4 + (unat a mod 4 * 16) div 16)]"
    unfolding b64encode.simps by (rule b64decode_pad2) (rule sextets [OF u u u])+
  also have "(of_nat (unat a div 4 * 4 + (unat a mod 4 * 16) div 16) :: byte) = a"
    by (rule byte_of_unat) (rule regroup1)
  finally show ?case .
next
  case (3 a b)
  note u = unat_byte_less [of a] and v = unat_byte_less [of b]
  have "b64decode (b64encode [a, b])
      = Some [of_nat (unat a div 4 * 4 + (unat a mod 4 * 16 + unat b div 16) div 16),
              of_nat ((unat a mod 4 * 16 + unat b div 16) mod 16 * 16 + (unat b mod 16 * 4) div 4)]"
    unfolding b64encode.simps by (rule b64decode_pad1) (rule sextets [OF u v v])+
  also have "(of_nat (unat a div 4 * 4 + (unat a mod 4 * 16 + unat b div 16) div 16) :: byte) = a"
    by (rule byte_of_unat) (rule regroup2 [OF v])
  also have "(of_nat ((unat a mod 4 * 16 + unat b div 16) mod 16 * 16 + (unat b mod 16 * 4) div 4)
      :: byte) = b"
    by (rule byte_of_unat) (rule regroup3 [OF v])
  finally show ?case .
next
  case (4 a b c rest)
  note u = unat_byte_less [of a] and v = unat_byte_less [of b] and w = unat_byte_less [of c]
  let ?i = "unat a div 4" and ?j = "unat a mod 4 * 16 + unat b div 16"
    and ?k = "unat b mod 16 * 4 + unat c div 64" and ?l = "unat c mod 64"
  have A: "(of_nat (?i * 4 + ?j div 16) :: byte) = a"
    by (rule byte_of_unat) (rule regroup2 [OF v])
  have B: "(of_nat (?j mod 16 * 16 + ?k div 4) :: byte) = b"
    by (rule byte_of_unat) (rule regroup4 [OF v w])
  have C: "(of_nat (?k mod 4 * 64 + ?l) :: byte) = c"
    by (rule byte_of_unat) (rule regroup5 [OF w])
  have "b64decode (b64encode (a # b # c # rest))
      = b64decode (b64_char ?i # b64_char ?j # b64_char ?k # b64_char ?l # b64encode rest)"
    by simp
  also have "\<dots> = map_option (\<lambda>bs. of_nat (?i * 4 + ?j div 16) # of_nat (?j mod 16 * 16 + ?k div 4)
                          # of_nat (?k mod 4 * 64 + ?l) # bs) (b64decode (b64encode rest))"
    by (rule b64decode_quad) (rule sextets [OF u v w])+
  also have "\<dots> = Some (a # b # c # rest)"
    unfolding A B C "4.IH" by simp
  finally show ?case .
qed

lemma b64encode_sample: "b64encode [1, 2, 3, 4] = ''AQIDBA==''"
  by (simp add: b64_char_def b64_alphabet_def)

lemma b64encode_eq_Nil [simp]: "b64encode bs = [] \<longleftrightarrow> bs = []"
  by (cases bs rule: b64encode.cases) simp_all

section \<open>Basic facts about the page and the session state\<close>

lemma emit_fields [simp]:
  "session_state (emit e s) = session_state s"
  "page (emit e s) = page s @ [(container s, e)]"
  "container (emit e s) = container s"
  "api_calls (emit e s) = api_calls s"
  "pdf_calls (emit e s) = pdf_calls s"
  by (simp_all add: emit_def)

lemma state_get_emit [simp]: "state_get (emit e s) k = state_get s k"
  by (simp add: state_get_def)

lemma state_get_update [simp]:
  "state_get (s\<lparr>session_state := (session_state s)(k \<mapsto> v)\<rparr>) k = v"
  "state_get (s\<lparr>session_state := (session_state s)(k := None)\<rparr>) k = PyNone"
  by (simp_all add: state_get_def)

lemma errors_shown_append: "errors_shown (xs @ ys) = errors_shown xs @ errors_shown ys"
  by (induction xs rule: errors_shown.induct) simp_all

lemma sample_trigger:
  "uploaded sample_widgets = Some sample_upload" "analyze_clicked sample_widgets"
  "image_open sample_libs sample_upload = Returns sample_image"
  "st_image sample_libs sample_image = Returns ()"
  "format sample_image = PyStr ''PNG''"
  "image_save sample_libs sample_image (format sample_image) = Returns [1, 2, 3, 4]"
  by (simp_all add: sample_widgets_def sample_libs_def sample_upload_def sample_image_def)

section \<open>The image payload\<close>

text \<open>
  C7. Whatever file was uploaded (so in particular a png, jpg or jpeg one): when
  \<^verbatim>\<open>process_image_data\<close> produces a payload, PIL has opened the file and written the
  image to the buffer, and base64-decoding the payload gives back exactly the bytes of
  that buffer, which are what was encoded.
\<close>

theorem process_image_data_payload_decodes:
  assumes "process_image_data L uploaded_file s = ((PyStr payload, img_format), s')"
  shows "\<exists>img bs. image_open L uploaded_file = Returns img
           \<and> image_save L img (format img) = Returns bs
           \<and> payload = b64encode bs
           \<and> b64decode payload = Some bs"
  using assms
  by (auto simp: process_image_data_def b64decode_b64encode split: outcome.splits)

theorem process_image_data_payload_decodes_witness:
  "process_image_data sample_libs sample_upload sample_app
     = ((PyStr ''AQIDBA=='', PyStr ''PNG''), sample_app)
   \<and> b64decode ''AQIDBA=='' = Some [1, 2, 3, 4]"
proof -
  have run: "process_image_data sample_libs sample_upload sample_app
      = ((PyStr ''AQIDBA=='', PyStr ''PNG''), sample_app)"
    by (simp add: process_image_data_def sample_libs_def sample_upload_def b64_char_def
        b64_alphabet_def)
  from process_image_data_payload_decodes [OF run]
  obtain img bs where opened: "image_open sample_libs sample_upload = Returns img"
    and saved: "image_save sample_libs img (format img) = Returns bs"
    and decoded: "b64decode ''AQIDBA=='' = Some bs"
    by blast
  from opened saved have "bs = [1, 2, 3, 4]"
    by (auto simp: sample_libs_def sample_upload_def)
  with decoded run show ?thesis by simp
qed

section \<open>Reruns\<close>

text \<open>
  Only a clicked button asks for a rerun, and in the run that follows a rerun no button reads
  as clicked. So an interaction is over after two runs of the script at most, and
  \<^const>\<open>run_script\<close> has a result as soon as its bound allows two runs.
\<close>

lemma display_report_interrupt:
  "fst (display_report L s) = Inl i \<Longrightarrow> \<exists>e. i = Crashed e"
  by (auto simp: display_report_def state_attr_def generate_pdf_report_def Let_def
      split: if_splits option.splits outcome.splits pyval.splits)

lemma display_main_interface_unclicked:
  assumes "\<not> clear_clicked w"
  shows "fst (display_main_interface L w s) \<noteq> Inl Rerun"
proof -
  let ?s1 = "emit (Markdown ''---'' False)
               (emit (Subheader ''AI-Powered Rice Grain Inspection'')
                 (emit (Title (sheaf_of_rice @ '' Rice Quality Analyzer'')) s))"
  obtain r s2 where d: "display_report L ?s1 = (r, s2)"
    by (cases "display_report L ?s1")
  show ?thesis
  proof (cases r)
    case (Inl i)
    with d display_report_interrupt [of L ?s1 i] obtain e where "i = Crashed e"
      by auto
    with d Inl show ?thesis
      by (simp add: display_main_interface_def Let_def)
  next
    case (Inr u)
    with d assms show ?thesis
      by (simp add: display_main_interface_def Let_def)
  qed
qed

lemma render_sidebar_unclicked:
  assumes "\<not> analyze_clicked w"
  shows "fst (render_sidebar L cl w s) \<noteq> Inl Rerun"
  using assms
  by (auto simp: render_sidebar_def sidebar_body_def Let_def
      split: option.splits outcome.splits prod.splits)

lemma main_unclicked:
  assumes "\<not> clear_clicked w" and "\<not> analyze_clicked w"
  shows "fst (main L w s) \<noteq> Inl Rerun"
proof (cases "truthy (getenv (load_dotenv L) ''GROQ_API_KEY'')")
  case False
  then show ?thesis
    by (simp add: main_def initialize_api_client_def)
next
  case True
  let ?s1 = "configure_application s"
  obtain r s2 where d: "display_main_interface L w ?s1 = (r, s2)"
    by (cases "display_main_interface L w ?s1")
  from display_main_interface_unclicked [OF assms(1), of L ?s1] d have "r \<noteq> Inl Rerun"
    by simp
  with True d render_sidebar_unclicked [OF assms(2)] show ?thesis
    by (cases r) (auto simp: main_def initialize_api_client_def)
qed

lemma run_script_two_runs: "\<exists>r. run_script (Suc (Suc fuel)) L w s = Some r"
proof -
  let ?s0 = "s\<lparr>page := [], container := Main_area\<rparr>"
  let ?w' = "w\<lparr>clear_clicked := False, analyze_clicked := False\<rparr>"
  obtain r s' where first: "main L w ?s0 = (r, s')"
    by (cases "main L w ?s0")
  show ?thesis
  proof (cases "r = Inl Rerun")
    case False
    with first show ?thesis
      by (cases r) (auto split: interrupt.splits)
  next
    case True
    let ?s1 = "s'\<lparr>page := [], container := Main_area\<rparr>"
    obtain r2 s2 where second: "main L ?w' ?s1 = (r2, s2)"
      by (cases "main L ?w' ?s1")
    from main_unclicked [of ?w' L ?s1] second have "r2 \<noteq> Inl Rerun"
      by simp
    with True first second show ?thesis
      by (cases r2) (auto split: interrupt.splits)
  qed
qed

section \<open>Startup without a credential\<close>

text \<open>
  C3. When \<^verbatim>\<open>GROQ_API_KEY\<close> is unset or empty after \<^verbatim>\<open>load_dotenv()\<close>, \<^verbatim>\<open>main\<close> ends in
  \<^verbatim>\<open>st.stop()\<close>: what the run has put on the page by then is the page configuration, the
  style sheet and the error message, and nothing else. Neither \<^verbatim>\<open>display_main_interface\<close> nor
  \<^verbatim>\<open>render_sidebar\<close> is entered, whatever the widgets and the session state are, the session
  state and both counters are untouched, and Streamlit does not run the script again.
\<close>

theorem main_stops_without_credential:
  assumes "\<not> truthy (getenv (load_dotenv L) ''GROQ_API_KEY'')"
  shows "main L w s =
           (Inl Stopped,
            emit (Error_box ''API key not found. Please verify .env configuration.'')
              (configure_application s))
         \<and> run_script (Suc fuel) L w s =
           Some (Inl Stopped,
             s\<lparr>page := [(Main_area, Page_config PAGE_CONFIG),
                        (Main_area, Markdown CSS_STYLES True),
                        (Main_area, Error_box
                           ''API key not found. Please verify .env configuration.'')],
               container := Main_area\<rparr>)"
  using assms
  by (simp add: main_def initialize_api_client_def configure_application_def emit_def)

text \<open>
  The hypothesis of C3 holds for the sample libraries once the variable is taken out of
  the environment; the run then stops with the page of the theorem.
\<close>

theorem main_stops_without_credential_witness:
  "\<not> truthy (getenv (load_dotenv (sample_libs\<lparr>environ := Map.empty\<rparr>)) ''GROQ_API_KEY'')
   \<and> run_script (Suc 0) (sample_libs\<lparr>environ := Map.empty\<rparr>) sample_widgets sample_app =
       Some (Inl Stopped,
         sample_app\<lparr>page := [(Main_area, Page_config PAGE_CONFIG),
                        (Main_area, Markdown CSS_STYLES True),
                        (Main_area, Error_box
                           ''API key not found. Please verify .env configuration.'')],
           container := Main_area\<rparr>)"
proof -
  have h: "\<not> truthy (getenv (load_dotenv (sample_libs\<lparr>environ := Map.empty\<rparr>)) ''GROQ_API_KEY'')"
    by (simp add: getenv_def load_dotenv_def sample_libs_def)
  from h main_stops_without_credential [OF h, of sample_widgets sample_app 0, THEN conjunct2]
  show ?thesis by (rule conjI)
qed

section \<open>The document generator\<close>

lemma replace_scan_char:
  "replace_scan [x] new 0 t = concat (map (\<lambda>c. if c = x then new else [c]) t)"
  by (induction t) simp_all

text \<open>
  C5. For every report text, the story handed to \<^verbatim>\<open>doc.build\<close> is the title paragraph
  \<^verbatim>\<open><b>Rice Quality Report</b>\<close>, a spacer, and then the body paragraph, whose markup is the report
  text with every character kept in its place and every newline replaced by the break
  element \<^verbatim>\<open><br/>\<close>. The document returned is what the layout library builds from that
  story, rewound to its start; a failure of the library is passed on.
\<close>

theorem generate_pdf_report_story:
  "pdf_story t =
     [Paragraph ''<b>Rice Quality Report</b>'' Title_style,
      Spacer 1 12,
      Paragraph (concat (map (\<lambda>c. if c = newline then ''<br/>'' else [c]) t)) BodyText_style]
   \<and> generate_pdf_report L (PyStr t) s =
       (case build L (pdf_story t) of
          Raises e \<Rightarrow> Raises e
        | Returns bs \<Rightarrow> Returns \<lparr>getvalue = bs, position = 0\<rparr>,
        s\<lparr>pdf_calls := Suc (pdf_calls s)\<rparr>)"
  by (simp add: pdf_story_def py_replace_def replace_scan_char generate_pdf_report_def
      buffer_seek_def buffer_write_def BytesIO_def split: outcome.splits)

section \<open>The report pipeline\<close>

lemma generate_rice_report_frame [simp]:
  "session_state (snd (generate_rice_report L f cl s)) = session_state s"
  "pdf_calls (snd (generate_rice_report L f cl s)) = pdf_calls s"
  "container (snd (generate_rice_report L f cl s)) = container s"
  by (auto simp: generate_rice_report_def process_image_data_def Let_def
      split: outcome.splits list.splits prod.splits)

lemma generate_rice_report_value:
  "api_calls s = api_calls t \<Longrightarrow>
   fst (generate_rice_report L f cl s) = fst (generate_rice_report L f cl t)"
  by (auto simp: generate_rice_report_def process_image_data_def Let_def
      split: outcome.splits list.splits prod.splits)

lemma py_lower_Raises [simp]:
  "py_lower v = Raises e \<longleftrightarrow>
     v = PyNone \<and> e = ''AttributeError: NoneType object has no attribute lower''"
  by (cases v) auto

lemma generate_rice_report_returns:
  "format_known L f \<Longrightarrow> \<exists>r. fst (generate_rice_report L f cl s) = Returns r"
  by (auto simp: generate_rice_report_def process_image_data_def format_known_def Let_def
      split: outcome.splits list.splits prod.splits)

text \<open>
  C10. \<^verbatim>\<open>process_image_data\<close> returns either \<^verbatim>\<open>None\<close> twice or two values that are both
  not \<^verbatim>\<open>None\<close>. The format is \<^verbatim>\<open>image.format\<close> passed through, so what excludes a payload
  without a format is the \<^verbatim>\<open>try\<close>: saving an image that has no format raises, and the
  handler answers \<^verbatim>\<open>(None, None)\<close>. Hence a payload that passes the truth test of
  \<^verbatim>\<open>generate_rice_report\<close> comes with a format on which \<^verbatim>\<open>lower()\<close> succeeds, and
  \<^verbatim>\<open>generate_rice_report\<close> never leaves by an exception.
\<close>

theorem process_image_data_both_or_neither:
  assumes "save_needs_format L f"
    and "process_image_data L f s = ((base64_image, img_format), s')"
  shows "((base64_image = PyNone \<and> img_format = PyNone)
           \<or> (base64_image \<noteq> PyNone \<and> img_format \<noteq> PyNone))
         \<and> (truthy base64_image \<longrightarrow> (\<exists>fmt. py_lower img_format = Returns fmt))
         \<and> (\<exists>r. fst (generate_rice_report L f cl s) = Returns r)"
proof -
  from assms have shape: "(base64_image = PyNone \<and> img_format = PyNone)
      \<or> (base64_image \<noteq> PyNone \<and> img_format \<noteq> PyNone)"
    by (auto simp: save_needs_format_def process_image_data_def
        split: outcome.splits pyval.splits)
  then have lower: "truthy base64_image \<longrightarrow> (\<exists>fmt. py_lower img_format = Returns fmt)"
    by (cases img_format) auto
  from lower assms(2) have "\<exists>r. fst (generate_rice_report L f cl s) = Returns r"
    by (auto simp: generate_rice_report_def Let_def split: outcome.splits list.splits)
  with shape lower show ?thesis by blast
qed

text \<open>
  The hypotheses of C10 hold for the sample file, where a payload and a format come back
  and the pipeline returns, and for an image without a format, where the save raises and
  both components are \<^verbatim>\<open>None\<close>.
\<close>

theorem process_image_data_both_or_neither_witness:
  "save_needs_format sample_libs sample_upload
   \<and> process_image_data sample_libs sample_upload sample_app
       = ((PyStr ''AQIDBA=='', PyStr ''PNG''), sample_app)
   \<and> (\<exists>fmt. py_lower (PyStr ''PNG'') = Returns fmt)
   \<and> (\<exists>r. fst (generate_rice_report sample_libs sample_upload sample_client sample_app)
          = Returns r)
   \<and> save_needs_format formatless_libs sample_upload
   \<and> process_image_data formatless_libs sample_upload sample_app
       = ((PyNone, PyNone),
          emit (Error_box ''Image processing error: unknown file extension: '') sample_app)
   \<and> (\<exists>r. fst (generate_rice_report formatless_libs sample_upload sample_client sample_app)
          = Returns r)"
proof -
  have fk: "save_needs_format sample_libs sample_upload"
    by (simp add: save_needs_format_def sample_libs_def sample_upload_def)
  have run: "process_image_data sample_libs sample_upload sample_app
      = ((PyStr ''AQIDBA=='', PyStr ''PNG''), sample_app)"
    by (simp add: process_image_data_def sample_libs_def sample_upload_def b64_char_def
        b64_alphabet_def)
  have fk': "save_needs_format formatless_libs sample_upload"
    by (simp add: save_needs_format_def formatless_libs_def sample_libs_def sample_upload_def)
  have run': "process_image_data formatless_libs sample_upload sample_app
      = ((PyNone, PyNone),
         emit (Error_box ''Image processing error: unknown file extension: '') sample_app)"
    by (simp add: process_image_data_def formatless_libs_def sample_libs_def sample_upload_def)
  from process_image_data_both_or_neither [OF fk run, of sample_client]
  have a: "(\<exists>fmt. py_lower (PyStr ''PNG'') = Returns fmt)
      \<and> (\<exists>r. fst (generate_rice_report sample_libs sample_upload sample_client sample_app)
            = Returns r)"
    by simp
  from process_image_data_both_or_neither [OF fk' run', of sample_client]
  have b: "\<exists>r. fst (generate_rice_report formatless_libs sample_upload sample_client sample_app)
      = Returns r"
    by blast
  from fk run a fk' run' b show ?thesis
    by blast
qed

text \<open>
  C2. For every uploaded file, \<^verbatim>\<open>generate_rice_report\<close> does the following, and nothing
  else. If PIL raises while opening the file or while saving the image, the error is
  reported with \<^verbatim>\<open>st.error\<close>, \<^verbatim>\<open>None\<close> is returned and no request is made. If the image is
  opened and saved, exactly one request is made, carrying the data URL of the saved bytes:
  if it raises, or comes back without a choice, the error is reported and \<^verbatim>\<open>None\<close> is
  returned; if it comes back with a choice, the content of the first choice is returned
  whole and nothing is reported. A refused request is not repeated: in every case at most one
  request is made, and only the outcome of that request matters.
\<close>

theorem generate_rice_report_answer_or_error:
  assumes "save_needs_format L f" and "writes_bytes L f"
  shows "(\<forall>e. image_open L f = Raises e \<longrightarrow>
            generate_rice_report L f cl s =
              (Returns PyNone, emit (Error_box (''Image processing error: '' @ e)) s))
         \<and> (\<forall>img e. image_open L f = Returns img \<and> image_save L img (format img) = Raises e \<longrightarrow>
            generate_rice_report L f cl s =
              (Returns PyNone, emit (Error_box (''Image processing error: '' @ e)) s))
         \<and> (\<forall>img bs. image_open L f = Returns img
               \<and> image_save L img (format img) = Returns bs \<longrightarrow>
            (\<exists>fm. format img = PyStr fm \<and> bs \<noteq> []
               \<and> (\<forall>e. chat_create L cl (api_calls s)
                        (analysis_request
                          (''data:image/'' @ map lower_char fm @ '';base64,'' @ b64encode bs))
                      = Raises e \<longrightarrow>
                    generate_rice_report L f cl s =
                      (Returns PyNone,
                       emit (Error_box (''API communication error: '' @ e))
                         (s\<lparr>api_calls := Suc (api_calls s)\<rparr>)))
               \<and> (\<forall>resp. chat_create L cl (api_calls s)
                        (analysis_request
                          (''data:image/'' @ map lower_char fm @ '';base64,'' @ b64encode bs))
                      = Returns resp \<and> choices resp = [] \<longrightarrow>
                    generate_rice_report L f cl s =
                      (Returns PyNone,
                       emit (Error_box ''API communication error: list index out of range'')
                         (s\<lparr>api_calls := Suc (api_calls s)\<rparr>)))
               \<and> (\<forall>resp c cs. chat_create L cl (api_calls s)
                        (analysis_request
                          (''data:image/'' @ map lower_char fm @ '';base64,'' @ b64encode bs))
                      = Returns resp \<and> choices resp = c # cs \<longrightarrow>
                    generate_rice_report L f cl s =
                      (Returns (PyStr (message_content c)),
                       s\<lparr>api_calls := Suc (api_calls s)\<rparr>))))
         \<and> api_calls (snd (generate_rice_report L f cl s)) \<le> Suc (api_calls s)"
proof (intro conjI allI impI)
  fix e
  assume "image_open L f = Raises e"
  then show "generate_rice_report L f cl s =
      (Returns PyNone, emit (Error_box (''Image processing error: '' @ e)) s)"
    by (simp add: generate_rice_report_def process_image_data_def)
next
  fix img e
  assume "image_open L f = Returns img \<and> image_save L img (format img) = Raises e"
  then show "generate_rice_report L f cl s =
      (Returns PyNone, emit (Error_box (''Image processing error: '' @ e)) s)"
    by (simp add: generate_rice_report_def process_image_data_def)
next
  fix img bs
  assume processed: "image_open L f = Returns img \<and> image_save L img (format img) = Returns bs"
  with assms obtain fm where fm: "format img = PyStr fm" and bs: "bs \<noteq> []"
    by (cases "format img") (auto simp: save_needs_format_def writes_bytes_def)
  let ?req = "analysis_request (''data:image/'' @ map lower_char fm @ '';base64,'' @ b64encode bs)"
  have raised: "generate_rice_report L f cl s =
      (Returns PyNone,
       emit (Error_box (''API communication error: '' @ e)) (s\<lparr>api_calls := Suc (api_calls s)\<rparr>))"
    if "chat_create L cl (api_calls s) ?req = Raises e" for e
    using that processed fm bs
    by (simp add: generate_rice_report_def process_image_data_def Let_def)
  have empty: "generate_rice_report L f cl s =
      (Returns PyNone,
       emit (Error_box ''API communication error: list index out of range'')
         (s\<lparr>api_calls := Suc (api_calls s)\<rparr>))"
    if "chat_create L cl (api_calls s) ?req = Returns resp \<and> choices resp = []" for resp
    using that processed fm bs
    by (simp add: generate_rice_report_def process_image_data_def Let_def)
  have answered: "generate_rice_report L f cl s =
      (Returns (PyStr (message_content c)), s\<lparr>api_calls := Suc (api_calls s)\<rparr>)"
    if "chat_create L cl (api_calls s) ?req = Returns resp \<and> choices resp = c # cs"
    for resp c cs
    using that processed fm bs
    by (simp add: generate_rice_report_def process_image_data_def Let_def)
  from fm bs raised empty answered
  show "\<exists>fm. format img = PyStr fm \<and> bs \<noteq> []
      \<and> (\<forall>e. chat_create L cl (api_calls s)
               (analysis_request
                 (''data:image/'' @ map lower_char fm @ '';base64,'' @ b64encode bs))
             = Raises e \<longrightarrow>
           generate_rice_report L f cl s =
             (Returns PyNone,
              emit (Error_box (''API communication error: '' @ e))
                (s\<lparr>api_calls := Suc (api_calls s)\<rparr>)))
      \<and> (\<forall>resp. chat_create L cl (api_calls s)
               (analysis_request
                 (''data:image/'' @ map lower_char fm @ '';base64,'' @ b64encode bs))
             = Returns resp \<and> choices resp = [] \<longrightarrow>
           generate_rice_report L f cl s =
             (Returns PyNone,
              emit (Error_box ''API communication error: list index out of range'')
                (s\<lparr>api_calls := Suc (api_calls s)\<rparr>)))
      \<and> (\<forall>resp c cs. chat_create L cl (api_calls s)
               (analysis_request
                 (''data:image/'' @ map lower_char fm @ '';base64,'' @ b64encode bs))
             = Returns resp \<and> choices resp = c # cs \<longrightarrow>
           generate_rice_report L f cl s =
             (Returns (PyStr (message_content c)),
              s\<lparr>api_calls := Suc (api_calls s)\<rparr>))"
    by blast
next
  show "api_calls (snd (generate_rice_report L f cl s)) \<le> Suc (api_calls s)"
    by (auto simp: generate_rice_report_def process_image_data_def Let_def
        split: outcome.splits list.splits prod.splits)
qed

text \<open>
  The hypotheses of C2 hold for the sample file and for an empty file. The first request for
  the sample file is answered and the answer returned; with a hosted model that refuses
  every request the error is reported and \<^verbatim>\<open>None\<close> returned after one request; the empty
  file is refused by PIL, which is reported and answered by \<^verbatim>\<open>None\<close> without a request.
\<close>

theorem generate_rice_report_answer_or_error_witness:
  "save_needs_format sample_libs sample_upload \<and> writes_bytes sample_libs sample_upload
   \<and> generate_rice_report sample_libs sample_upload sample_client sample_app
       = (Returns (PyStr ''Basmati''), sample_app\<lparr>api_calls := Suc (api_calls sample_app)\<rparr>)
   \<and> save_needs_format refusing_libs sample_upload \<and> writes_bytes refusing_libs sample_upload
   \<and> generate_rice_report refusing_libs sample_upload sample_client sample_app
       = (Returns PyNone,
          emit (Error_box (''API communication error: '' @ ''rate limit''))
            (sample_app\<lparr>api_calls := Suc (api_calls sample_app)\<rparr>))
   \<and> save_needs_format sample_libs empty_upload \<and> writes_bytes sample_libs empty_upload
   \<and> generate_rice_report sample_libs empty_upload sample_client sample_app
       = (Returns PyNone,
          emit (Error_box (''Image processing error: '' @ ''cannot identify image file''))
            sample_app)"
proof -
  let ?url = "''data:image/'' @ map lower_char ''PNG'' @ '';base64,'' @ b64encode [1, 2, 3, 4]"
  have fk: "save_needs_format sample_libs sample_upload"
    and wb: "writes_bytes sample_libs sample_upload"
    by (simp_all add: save_needs_format_def writes_bytes_def sample_libs_def sample_upload_def)
  have processed: "image_open sample_libs sample_upload = Returns sample_image
      \<and> image_save sample_libs sample_image (format sample_image) = Returns [1, 2, 3, 4]"
    by (simp add: sample_libs_def sample_upload_def sample_image_def)
  have fm: "format sample_image = PyStr ''PNG''"
    by (simp add: sample_image_def)
  have answered: "chat_create sample_libs sample_client (api_calls sample_app)
      (analysis_request ?url) = Returns \<lparr>choices = [Choice ''Basmati'']\<rparr>
      \<and> choices \<lparr>choices = [Choice ''Basmati'']\<rparr> = Choice ''Basmati'' # []"
    by (simp add: sample_libs_def sample_app_def)
  from generate_rice_report_answer_or_error [OF fk wb, of sample_client sample_app]
    processed fm answered
  have ok: "generate_rice_report sample_libs sample_upload sample_client sample_app
      = (Returns (PyStr ''Basmati''), sample_app\<lparr>api_calls := Suc (api_calls sample_app)\<rparr>)"
    by fastforce
  have fk': "save_needs_format refusing_libs sample_upload"
    and wb': "writes_bytes refusing_libs sample_upload"
    by (simp_all add: save_needs_format_def writes_bytes_def refusing_libs_def sample_libs_def
        sample_upload_def)
  have processed': "image_open refusing_libs sample_upload = Returns sample_image
      \<and> image_save refusing_libs sample_image (format sample_image) = Returns [1, 2, 3, 4]"
    by (simp add: refusing_libs_def sample_libs_def sample_upload_def sample_image_def)
  have refused: "chat_create refusing_libs sample_client (api_calls sample_app)
      (analysis_request ?url) = Raises ''rate limit''"
    by (simp add: refusing_libs_def)
  from generate_rice_report_answer_or_error [OF fk' wb', of sample_client sample_app]
    processed' fm refused
  have bad: "generate_rice_report refusing_libs sample_upload sample_client sample_app
      = (Returns PyNone,
         emit (Error_box (''API communication error: '' @ ''rate limit''))
           (sample_app\<lparr>api_calls := Suc (api_calls sample_app)\<rparr>))"
    by fastforce
  have fk'': "save_needs_format sample_libs empty_upload"
    and wb'': "writes_bytes sample_libs empty_upload"
    by (simp_all add: save_needs_format_def writes_bytes_def sample_libs_def empty_upload_def)
  have unread: "image_open sample_libs empty_upload = Raises ''cannot identify image file''"
    by (simp add: sample_libs_def empty_upload_def)
  from generate_rice_report_answer_or_error [OF fk'' wb'', of sample_client sample_app] unread
  have none: "generate_rice_report sample_libs empty_upload sample_client sample_app
      = (Returns PyNone,
         emit (Error_box (''Image processing error: '' @ ''cannot identify image file''))
           sample_app)"
    by blast
  from fk wb ok fk' wb' bad fk'' wb'' none show ?thesis
    by blast
qed

section \<open>The page and the stored result\<close>

lemma display_report_absent:
  "\<not> truthy (state_get s ''analysis_result'') \<Longrightarrow> display_report L s = (Inr (), s)"
  by (simp add: display_report_def)

lemma display_report_present:
  assumes "truthy (state_get s ''analysis_result'')"
  shows "(container s, Markdown (report_markup (py_str (state_get s ''analysis_result''))) True)
           \<in> set (page (snd (display_report L s)))"
proof -
  from assms obtain v where v: "session_state s ''analysis_result'' = Some v"
    by (cases "session_state s ''analysis_result''") (auto simp: state_get_def)
  then have g: "state_get s ''analysis_result'' = v"
    by (simp add: state_get_def)
  from assms g obtain t where t: "v = PyStr t"
    by (cases v) auto
  show ?thesis
    using assms v g t
    by (auto simp: display_report_def state_attr_def generate_pdf_report_def Let_def
        split: outcome.splits)
qed

lemma display_report_frame [simp]:
  "session_state (snd (display_report L s)) = session_state s"
  "container (snd (display_report L s)) = container s"
  by (auto simp: display_report_def state_attr_def generate_pdf_report_def Let_def
      split: outcome.splits pyval.splits)

lemma display_main_interface_no_pdf:
  "\<not> truthy (state_get s ''analysis_result'') \<Longrightarrow>
   pdf_calls (snd (display_main_interface L w s)) = pdf_calls s"
  by (simp add: display_main_interface_def display_report_absent Let_def)

lemma display_main_interface_shows:
  assumes "truthy (state_get s ''analysis_result'')"
  shows "(container s, Markdown (report_markup (py_str (state_get s ''analysis_result''))) True)
           \<in> set (page (snd (display_main_interface L w s)))"
proof -
  let ?s1 = "emit (Markdown ''---'' False)
               (emit (Subheader ''AI-Powered Rice Grain Inspection'')
                 (emit (Title (sheaf_of_rice @ '' Rice Quality Analyzer'')) s))"
  from assms have "truthy (state_get ?s1 ''analysis_result'')"
    by simp
  from display_report_present [OF this, of L]
  have shown: "(container s,
      Markdown (report_markup (py_str (state_get s ''analysis_result''))) True)
      \<in> set (page (snd (display_report L ?s1)))"
    by simp
  obtain r s2 where d: "display_report L ?s1 = (r, s2)"
    by (cases "display_report L ?s1")
  with shown have "(container s,
      Markdown (report_markup (py_str (state_get s ''analysis_result''))) True) \<in> set (page s2)"
    by simp
  with d show ?thesis
    by (cases r) (auto simp: display_main_interface_def Let_def)
qed

lemma display_main_interface_page_absent:
  assumes "\<not> truthy (state_get s ''analysis_result'')"
  shows "page (snd (display_main_interface L w s)) =
           page s @ [(container s, Title (sheaf_of_rice @ '' Rice Quality Analyzer'')),
                     (container s, Subheader ''AI-Powered Rice Grain Inspection''),
                     (container s, Markdown ''---'' False),
                     (container s, Button (''Clear Analysis '' @ wastebasket))]"
  using assms by (simp add: display_main_interface_def display_report_absent Let_def)

lemma clear_button_drawn_emit [simp]:
  "clear_button_drawn L (emit e s) = clear_button_drawn L s"
  by (simp add: clear_button_drawn_def)

lemma display_report_completes:
  assumes "clear_button_drawn L s"
  shows "fst (display_report L s) = Inr ()"
proof (cases "truthy (state_get s ''analysis_result'')")
  case False
  then show ?thesis
    by (simp add: display_report_absent)
next
  case True
  then obtain t where t: "state_get s ''analysis_result'' = PyStr t" and "t \<noteq> []"
    by (cases "state_get s ''analysis_result''") auto
  with assms obtain bs where "build L (pdf_story t) = Returns bs"
    by (cases "build L (pdf_story t)") (auto simp: clear_button_drawn_def)
  moreover from t have "session_state s ''analysis_result'' = Some (PyStr t)"
    by (cases "session_state s ''analysis_result''") (auto simp: state_get_def)
  ultimately show ?thesis
    using True t
    by (simp add: display_report_def state_attr_def generate_pdf_report_def Let_def)
qed

lemma display_main_interface_drawn:
  assumes "clear_button_drawn L s"
  shows "(container s, Button (''Clear Analysis '' @ wastebasket))
           \<in> set (page (snd (display_main_interface L w s)))"
    and "clear_clicked w \<Longrightarrow> fst (display_main_interface L w s) = Inl Rerun"
    and "clear_clicked w \<Longrightarrow> session_state (snd (display_main_interface L w s))
           = (session_state s)(''analysis_result'' := None)"
proof -
  let ?s1 = "emit (Markdown ''---'' False)
               (emit (Subheader ''AI-Powered Rice Grain Inspection'')
                 (emit (Title (sheaf_of_rice @ '' Rice Quality Analyzer'')) s))"
  from assms have "clear_button_drawn L ?s1"
    by simp
  from display_report_completes [OF this]
  obtain s2 where d: "display_report L ?s1 = (Inr (), s2)"
    by (cases "display_report L ?s1") auto
  have "session_state (snd (display_report L ?s1)) = session_state ?s1"
    and "container (snd (display_report L ?s1)) = container ?s1"
    by (rule display_report_frame)+
  then have frame: "session_state s2 = session_state s" "container s2 = container s"
    unfolding d by simp_all
  show "(container s, Button (''Clear Analysis '' @ wastebasket))
      \<in> set (page (snd (display_main_interface L w s)))"
    using d frame by (simp add: display_main_interface_def Let_def)
  show "fst (display_main_interface L w s) = Inl Rerun" if "clear_clicked w"
    using that d by (simp add: display_main_interface_def Let_def)
  show "session_state (snd (display_main_interface L w s))
      = (session_state s)(''analysis_result'' := None)" if "clear_clicked w"
    using that d frame by (simp add: display_main_interface_def Let_def)
qed

lemma display_main_interface_not_drawn:
  assumes "\<not> clear_button_drawn L s"
  shows "\<exists>t e. state_get s ''analysis_result'' = PyStr t \<and> t \<noteq> []
           \<and> build L (pdf_story t) = Raises e
           \<and> fst (display_main_interface L w s) = Inl (Crashed e)
           \<and> page (snd (display_main_interface L w s)) =
               page s @ [(container s, Title (sheaf_of_rice @ '' Rice Quality Analyzer'')),
                         (container s, Subheader ''AI-Powered Rice Grain Inspection''),
                         (container s, Markdown ''---'' False),
                         (container s, Markdown (''### '' @ clipboard @ '' Analysis Report'') False),
                         (container s, Markdown (report_markup t) True)]"
proof -
  from assms obtain t where t: "state_get s ''analysis_result'' = PyStr t" and ne: "t \<noteq> []"
    by (cases "state_get s ''analysis_result''") (auto simp: clear_button_drawn_def)
  with assms obtain e where e: "build L (pdf_story t) = Raises e"
    by (cases "build L (pdf_story t)") (auto simp: clear_button_drawn_def)
  from t have stored: "session_state s ''analysis_result'' = Some (PyStr t)"
    by (cases "session_state s ''analysis_result''") (auto simp: state_get_def)
  have "fst (display_main_interface L w s) = Inl (Crashed e)"
    using ne e stored
    by (simp add: display_main_interface_def display_report_def state_attr_def state_get_def
        generate_pdf_report_def Let_def)
  moreover have "page (snd (display_main_interface L w s)) =
      page s @ [(container s, Title (sheaf_of_rice @ '' Rice Quality Analyzer'')),
                (container s, Subheader ''AI-Powered Rice Grain Inspection''),
                (container s, Markdown ''---'' False),
                (container s, Markdown (''### '' @ clipboard @ '' Analysis Report'') False),
                (container s, Markdown (report_markup t) True)]"
    using ne e stored
    by (simp add: display_main_interface_def display_report_def state_attr_def state_get_def
        generate_pdf_report_def Let_def)
  ultimately show ?thesis
    using t ne e by blast
qed

lemma render_sidebar_trigger:
  assumes up: "uploaded w = Some f" and click: "analyze_clicked w"
    and opened: "image_open L f = Returns img" and shown: "st_image L img = Returns u"
    and report: "fst (generate_rice_report L f cl s) = Returns report"
  shows "fst (render_sidebar L cl w s) = Inl Rerun"
    and "session_state (snd (render_sidebar L cl w s))
           = (session_state s)(''analysis_result'' \<mapsto> report)"
    and "pdf_calls (snd (render_sidebar L cl w s)) = pdf_calls s"
proof -
  let ?s3 = "emit (Spinner ''Processing image... This may take a few seconds.'')
      (emit (Button (''Analyze Rice Quality '' @ magnifying_glass))
        (emit (Image_box img ''Uploaded Image'' True)
          (emit (File_uploader ''Select an image of rice grains'' ALLOWED_FILE_TYPES)
            (emit (Subheader ''Upload Rice Image'')
              (emit (Markdown ''---'' False)
                (emit (Markdown features_text False)
                  (emit (Markdown ''### Features'' False) (s\<lparr>container := Sidebar\<rparr>))))))))"
  have "api_calls ?s3 = api_calls s"
    by simp
  from generate_rice_report_value [OF this, of L f cl] report
  have "fst (generate_rice_report L f cl ?s3) = Returns report"
    by simp
  then obtain s4 where g: "generate_rice_report L f cl ?s3 = (Returns report, s4)"
    by (cases "generate_rice_report L f cl ?s3") auto
  have "session_state (snd (generate_rice_report L f cl ?s3)) = session_state ?s3"
    and "pdf_calls (snd (generate_rice_report L f cl ?s3)) = pdf_calls ?s3"
    by (rule generate_rice_report_frame)+
  then have frame: "session_state s4 = session_state s" "pdf_calls s4 = pdf_calls s"
    unfolding g by simp_all
  have body: "sidebar_body L cl w (s\<lparr>container := Sidebar\<rparr>)
      = (Inl Rerun, s4\<lparr>session_state := (session_state s4)(''analysis_result'' \<mapsto> report)\<rparr>)"
    using up click opened shown g by (simp add: sidebar_body_def Let_def)
  show "fst (render_sidebar L cl w s) = Inl Rerun"
    by (simp add: render_sidebar_def body)
  show "session_state (snd (render_sidebar L cl w s))
      = (session_state s)(''analysis_result'' \<mapsto> report)"
    by (simp add: render_sidebar_def body frame)
  show "pdf_calls (snd (render_sidebar L cl w s)) = pdf_calls s"
    by (simp add: render_sidebar_def body frame)
qed

lemma sample_answer:
  "fst (generate_rice_report sample_libs sample_upload sample_client s)
     = (if api_calls s = 0 then Returns (PyStr ''Basmati'') else Returns PyNone)"
  by (simp add: generate_rice_report_def process_image_data_def sample_libs_def
      sample_upload_def Let_def)

lemma report_markup_inj: "report_markup a = report_markup b \<Longrightarrow> a = b"
  by (simp add: report_markup_def)

text \<open>
  C9. With a file uploaded whose preview is drawn and whose image has a format, a click on
  the analyze button always ends the run with a request for a rerun, and
  \<^verbatim>\<open>st.session_state['analysis_result']\<close> then holds whatever \<^verbatim>\<open>generate_rice_report\<close> returned, in place of
  whatever was there. In particular a failed analysis stores \<^verbatim>\<open>None\<close>, so a report
  shown before is gone afterwards.
\<close>

theorem analyze_overwrites_stored_result:
  assumes "uploaded w = Some f" and "analyze_clicked w"
    and "image_open L f = Returns img" and "st_image L img = Returns u"
    and "format img \<noteq> PyNone"
  shows "\<exists>report. fst (generate_rice_report L f cl s) = Returns report
           \<and> fst (render_sidebar L cl w s) = Inl Rerun
           \<and> session_state (snd (render_sidebar L cl w s))
               = (session_state s)(''analysis_result'' \<mapsto> report)
           \<and> state_get (snd (render_sidebar L cl w s)) ''analysis_result'' = report
           \<and> (report = PyNone \<longrightarrow> \<not> result_present (snd (render_sidebar L cl w s)))"
proof -
  from assms(3,5) have "format_known L f"
    by (simp add: format_known_def)
  from generate_rice_report_returns [OF this, of cl s]
  obtain report where r: "fst (generate_rice_report L f cl s) = Returns report" ..
  note t = render_sidebar_trigger [OF assms(1-4) r]
  from t(2) have "state_get (snd (render_sidebar L cl w s)) ''analysis_result'' = report"
    by (simp add: state_get_def)
  with r t show ?thesis
    by (auto simp: result_present_def)
qed

text \<open>
  The hypotheses of C9 hold in the sample session; there a stored report is replaced by
  \<^verbatim>\<open>None\<close> when the hosted model refuses the request.
\<close>

theorem analyze_overwrites_stored_result_witness:
  "uploaded sample_widgets = Some sample_upload \<and> analyze_clicked sample_widgets
   \<and> image_open sample_libs sample_upload = Returns sample_image
   \<and> st_image sample_libs sample_image = Returns ()
   \<and> format sample_image \<noteq> PyNone
   \<and> result_present (shown_app\<lparr>api_calls := 1\<rparr>)
   \<and> state_get (snd (render_sidebar sample_libs sample_client sample_widgets
        (shown_app\<lparr>api_calls := 1\<rparr>))) ''analysis_result'' = PyNone
   \<and> \<not> result_present (snd (render_sidebar sample_libs sample_client sample_widgets
        (shown_app\<lparr>api_calls := 1\<rparr>)))"
proof -
  have fmt: "format sample_image \<noteq> PyNone"
    by (simp add: sample_image_def)
  from analyze_overwrites_stored_result [OF sample_trigger(1-4) fmt,
      of sample_client "shown_app\<lparr>api_calls := 1\<rparr>"]
  obtain report
    where a: "fst (generate_rice_report sample_libs sample_upload sample_client
        (shown_app\<lparr>api_calls := 1\<rparr>)) = Returns report"
      and b: "state_get (snd (render_sidebar sample_libs sample_client sample_widgets
        (shown_app\<lparr>api_calls := 1\<rparr>))) ''analysis_result'' = report"
      and c: "report = PyNone \<longrightarrow> \<not> result_present (snd (render_sidebar sample_libs
        sample_client sample_widgets (shown_app\<lparr>api_calls := 1\<rparr>)))"
    by blast
  from a have none: "report = PyNone"
    by (simp add: sample_answer)
  have before: "result_present (shown_app\<lparr>api_calls := 1\<rparr>)"
    by (simp add: result_present_def state_get_def shown_app_def)
  from none b c before fmt sample_trigger(1-4) show ?thesis
    by blast
qed

text \<open>
  What holds within the run of the click when the request raises: \<^verbatim>\<open>generate_rice_report\<close>
  calls \<^verbatim>\<open>st.error\<close> and returns \<^verbatim>\<open>None\<close>, the click stores that \<^verbatim>\<open>None\<close> and asks for a
  rerun, \<^verbatim>\<open>generate_pdf_report\<close> is not entered, and \<^verbatim>\<open>display_main_interface\<close> enters it only
  when the stored result passes the truth test.
\<close>

lemma api_failure_within_run:
  assumes up: "uploaded w = Some f" and click: "analyze_clicked w"
    and opened: "image_open L f = Returns img" and shown: "st_image L img = Returns u"
    and fmt: "format img = PyStr fm"
    and saved: "image_save L img (format img) = Returns bs" and bs: "bs \<noteq> []"
    and api: "\<forall>req. chat_create L cl (api_calls s) req = Raises e"
  shows "generate_rice_report L f cl s =
           (Returns PyNone,
            emit (Error_box (''API communication error: '' @ e))
              (s\<lparr>api_calls := Suc (api_calls s)\<rparr>))
         \<and> fst (render_sidebar L cl w s) = Inl Rerun
         \<and> (Sidebar, Error_box (''API communication error: '' @ e))
             \<in> set (page (snd (render_sidebar L cl w s)))
         \<and> session_state (snd (render_sidebar L cl w s)) ''analysis_result'' = Some PyNone
         \<and> pdf_calls (snd (render_sidebar L cl w s)) = pdf_calls s
         \<and> (\<forall>w' t. session_state t = session_state (snd (render_sidebar L cl w s)) \<longrightarrow>
               pdf_calls (snd (display_main_interface L w' t)) = pdf_calls t)
         \<and> (\<forall>w' t. pdf_calls (snd (display_main_interface L w' t)) \<noteq> pdf_calls t \<longrightarrow>
               truthy (state_get t ''analysis_result''))"
proof -
  have pipeline: "generate_rice_report L f cl s =
      (Returns PyNone,
       emit (Error_box (''API communication error: '' @ e)) (s\<lparr>api_calls := Suc (api_calls s)\<rparr>))"
    using opened fmt saved bs api
    by (simp add: generate_rice_report_def process_image_data_def Let_def)
  then have r: "fst (generate_rice_report L f cl s) = Returns PyNone"
    by simp
  note t = render_sidebar_trigger [OF up click opened shown r]
  have err: "(Sidebar, Error_box (''API communication error: '' @ e))
      \<in> set (page (snd (render_sidebar L cl w s)))"
    using up click opened shown fmt saved bs api
    by (simp add: render_sidebar_def sidebar_body_def generate_rice_report_def
        process_image_data_def Let_def)
  from t(2) have stored:
    "session_state (snd (render_sidebar L cl w s)) ''analysis_result'' = Some PyNone"
    by simp
  have later: "pdf_calls (snd (display_main_interface L w' t)) = pdf_calls t"
    if "session_state t = session_state (snd (render_sidebar L cl w s))" for w' t
  proof -
    from that stored have "state_get t ''analysis_result'' = PyNone"
      by (simp add: state_get_def)
    then show ?thesis
      by (simp add: display_main_interface_no_pdf)
  qed
  have only: "truthy (state_get t ''analysis_result'')"
    if "pdf_calls (snd (display_main_interface L w' t)) \<noteq> pdf_calls t" for w' t
    using that display_main_interface_no_pdf [of t L w'] by blast
  from pipeline t(1) err stored t(3) later only show ?thesis
    by blast
qed

lemma refused_first_run:
  "main refusing_libs sample_widgets (sample_app\<lparr>page := [], container := Main_area\<rparr>) =
     (Inl Rerun,
      sample_app\<lparr>session_state := [''analysis_result'' \<mapsto> PyNone],
        page := idle_page @
          [(Sidebar, Spinner ''Processing image... This may take a few seconds.''),
           (Sidebar, Error_box ''API communication error: rate limit'')],
        api_calls := 1\<rparr>)"
  by (simp add: main_def configure_application_def initialize_api_client_def getenv_def
      load_dotenv_def display_main_interface_def display_report_def state_get_def
      render_sidebar_def sidebar_body_def generate_rice_report_def process_image_data_def
      refusing_libs_def sample_libs_def sample_widgets_def sample_upload_def sample_image_def
      sample_app_def idle_page_def emit_def Let_def)

text \<open>
  C1. The claim has an error message shown to the user when the request to the hosted model
  raises. The script does call \<^verbatim>\<open>st.error\<close>, but the click then always asks for a rerun, and
  the rerun starts on an empty page on which nothing puts the message again. In the sample
  session with a hosted model that refuses every request, the message is on the page of the
  first run, which the rerun discards; the interaction ends after the second run with
  \<^verbatim>\<open>None\<close> stored and a page that holds neither an error message nor a report.
\<close>

theorem api_error_lost_on_rerun:
  "fst (main refusing_libs sample_widgets sample_app) = Inl Rerun
   \<and> errors_shown (page (snd (main refusing_libs sample_widgets sample_app)))
       = [''API communication error: rate limit'']
   \<and> run_script 2 refusing_libs sample_widgets sample_app =
       Some (Inr (),
         sample_app\<lparr>session_state := [''analysis_result'' \<mapsto> PyNone], page := idle_page,
           api_calls := 1\<rparr>)
   \<and> errors_shown idle_page = []"
proof -
  have start: "sample_app\<lparr>page := [], container := Main_area\<rparr> = sample_app"
    by (simp add: sample_app_def)
  from refused_first_run have first: "main refusing_libs sample_widgets sample_app =
      (Inl Rerun,
       sample_app\<lparr>session_state := [''analysis_result'' \<mapsto> PyNone],
         page := idle_page @
           [(Sidebar, Spinner ''Processing image... This may take a few seconds.''),
            (Sidebar, Error_box ''API communication error: rate limit'')],
         api_calls := 1\<rparr>)"
    by (simp only: start)
  have quiet: "errors_shown idle_page = []"
    by (simp add: idle_page_def)
  have two: "run_script 2 refusing_libs sample_widgets sample_app =
      run_script (Suc (Suc 0)) refusing_libs sample_widgets sample_app"
    by (simp only: numeral_2_eq_2)
  have "run_script (Suc (Suc 0)) refusing_libs sample_widgets sample_app =
      Some (Inr (),
        sample_app\<lparr>session_state := [''analysis_result'' \<mapsto> PyNone], page := idle_page,
          api_calls := 1\<rparr>)"
    by (simp add: main_def configure_application_def initialize_api_client_def getenv_def
        load_dotenv_def display_main_interface_def display_report_def state_get_def
        render_sidebar_def sidebar_body_def generate_rice_report_def process_image_data_def
        refusing_libs_def sample_libs_def sample_widgets_def sample_upload_def sample_image_def
        sample_app_def idle_page_def emit_def Let_def)
  with two first quiet show ?thesis
    by (simp add: errors_shown_append)
qed

text \<open>
  C6, as stated, fails for the empty answer. The hosted model returns the empty text, the
  click stores it, and the next run shows no report container at all, since the empty text
  fails the truth test of \<^verbatim>\<open>display_main_interface\<close>.
\<close>

theorem empty_response_not_rendered:
  "chat_create silent_libs sample_client 0 (analysis_request []) = Returns \<lparr>choices = [Choice []]\<rparr>
   \<and> fst (generate_rice_report silent_libs sample_upload sample_client sample_app)
       = Returns (PyStr [])
   \<and> session_state (snd (render_sidebar silent_libs sample_client sample_widgets sample_app))
        ''analysis_result'' = Some (PyStr [])
   \<and> (Main_area, Markdown (report_markup []) True)
        \<notin> set (page (snd (display_main_interface silent_libs
             (sample_widgets\<lparr>analyze_clicked := False\<rparr>)
             ((snd (render_sidebar silent_libs sample_client sample_widgets sample_app))
                \<lparr>page := [], container := Main_area\<rparr>))))"
proof -
  have opened: "image_open silent_libs sample_upload = Returns sample_image"
    and shown: "st_image silent_libs sample_image = Returns ()"
    by (simp_all add: silent_libs_def sample_libs_def sample_upload_def sample_image_def)
  have r: "fst (generate_rice_report silent_libs sample_upload sample_client sample_app)
      = Returns (PyStr [])"
    by (simp add: generate_rice_report_def process_image_data_def silent_libs_def
        sample_libs_def sample_upload_def Let_def)
  note t = render_sidebar_trigger [OF sample_trigger(1,2) opened shown r]
  let ?next = "(snd (render_sidebar silent_libs sample_client sample_widgets sample_app))
      \<lparr>page := [], container := Main_area\<rparr>"
  from t(2) have stored: "session_state (snd (render_sidebar silent_libs sample_client
      sample_widgets sample_app)) ''analysis_result'' = Some (PyStr [])"
    by simp
  then have "\<not> truthy (state_get ?next ''analysis_result'')"
    by (simp add: state_get_def)
  from display_main_interface_page_absent [OF this]
  have "(Main_area, Markdown (report_markup []) True)
      \<notin> set (page (snd (display_main_interface silent_libs
           (sample_widgets\<lparr>analyze_clicked := False\<rparr>) ?next)))"
    by simp
  moreover have "chat_create silent_libs sample_client 0 (analysis_request [])
      = Returns \<lparr>choices = [Choice []]\<rparr>"
    by (simp add: silent_libs_def)
  ultimately show ?thesis
    using r stored by blast
qed

text \<open>
  C6, amended. When the image is processed and the first choice of the hosted model's answer
  is a non-empty text \<^verbatim>\<open>R\<close>, the click stores exactly \<^verbatim>\<open>R\<close>, and every run that starts
  from the stored state puts the report container on the page with exactly \<^verbatim>\<open>R\<close> between
  its opening and closing tags; the container determines the text.
\<close>

theorem rendered_report_equals_response:
  assumes up: "uploaded w = Some f" and click: "analyze_clicked w"
    and opened: "image_open L f = Returns img" and shown: "st_image L img = Returns u"
    and fmt: "format img = PyStr fm"
    and saved: "image_save L img (format img) = Returns bs" and bs: "bs \<noteq> []"
    and api: "\<forall>req. chat_create L cl (api_calls s) req = Returns resp"
    and answer: "choices resp = Choice R # cs"
    and nonempty: "R \<noteq> []"
  shows "fst (render_sidebar L cl w s) = Inl Rerun
         \<and> session_state (snd (render_sidebar L cl w s)) ''analysis_result'' = Some (PyStr R)
         \<and> (\<forall>w' t. session_state t = session_state (snd (render_sidebar L cl w s)) \<longrightarrow>
               (container t, Markdown (report_markup R) True)
                 \<in> set (page (snd (display_main_interface L w' t))))
         \<and> (\<forall>R'. report_markup R' = report_markup R \<longrightarrow> R' = R)"
proof -
  have r: "fst (generate_rice_report L f cl s) = Returns (PyStr R)"
    using opened fmt saved bs api answer
    by (simp add: generate_rice_report_def process_image_data_def Let_def)
  note t = render_sidebar_trigger [OF up click opened shown r]
  from t(2) have stored:
    "session_state (snd (render_sidebar L cl w s)) ''analysis_result'' = Some (PyStr R)"
    by simp
  have rendered: "(container t, Markdown (report_markup R) True)
      \<in> set (page (snd (display_main_interface L w' t)))"
    if "session_state t = session_state (snd (render_sidebar L cl w s))" for w' t
  proof -
    from that stored have g: "state_get t ''analysis_result'' = PyStr R"
      by (simp add: state_get_def)
    with nonempty have "truthy (state_get t ''analysis_result'')"
      by simp
    from display_main_interface_shows [OF this, of L w'] g show ?thesis
      by simp
  qed
  from t(1) stored rendered report_markup_inj show ?thesis
    by blast
qed

text \<open>
  The hypotheses of the amended C6 hold in the sample session, where the answer is
  \<^verbatim>\<open>Basmati\<close>.
\<close>

theorem rendered_report_equals_response_witness:
  "(\<forall>req. chat_create sample_libs sample_client (api_calls sample_app) req
       = Returns \<lparr>choices = [Choice ''Basmati'']\<rparr>)
   \<and> ''Basmati'' \<noteq> []
   \<and> session_state (snd (render_sidebar sample_libs sample_client sample_widgets sample_app))
        ''analysis_result'' = Some (PyStr ''Basmati'')
   \<and> (Main_area, Markdown (report_markup ''Basmati'') True)
        \<in> set (page (snd (display_main_interface sample_libs
             (sample_widgets\<lparr>analyze_clicked := False\<rparr>)
             ((snd (render_sidebar sample_libs sample_client sample_widgets sample_app))
                \<lparr>page := [], container := Main_area\<rparr>))))"
proof -
  have api: "\<forall>req. chat_create sample_libs sample_client (api_calls sample_app) req
      = Returns \<lparr>choices = [Choice ''Basmati'']\<rparr>"
    by (simp add: sample_libs_def sample_app_def)
  have answer: "choices \<lparr>choices = [Choice ''Basmati'']\<rparr> = Choice ''Basmati'' # []"
    by simp
  have bs: "[1, 2, 3, 4 :: byte] \<noteq> []" and nonempty: "''Basmati'' \<noteq> []"
    by simp_all
  note inst = rendered_report_equals_response [OF sample_trigger bs api answer nonempty]
  let ?next = "(snd (render_sidebar sample_libs sample_client sample_widgets sample_app))
      \<lparr>page := [], container := Main_area\<rparr>"
  from inst have stored: "session_state (snd (render_sidebar sample_libs sample_client
      sample_widgets sample_app)) ''analysis_result'' = Some (PyStr ''Basmati'')"
    by blast
  from inst have "session_state ?next
        = session_state (snd (render_sidebar sample_libs sample_client sample_widgets sample_app))
      \<longrightarrow> (container ?next, Markdown (report_markup ''Basmati'') True)
        \<in> set (page (snd (display_main_interface sample_libs
             (sample_widgets\<lparr>analyze_clicked := False\<rparr>) ?next)))"
    by blast
  then have "(Main_area, Markdown (report_markup ''Basmati'') True)
      \<in> set (page (snd (display_main_interface sample_libs
           (sample_widgets\<lparr>analyze_clicked := False\<rparr>) ?next)))"
    by simp
  with api nonempty stored show ?thesis
    by blast
qed

text \<open>
  C4, as stated, fails at the analyze trigger. In the sample session a click whose request
  the hosted model refuses ends with the key present and holding \<^verbatim>\<open>None\<close>: no result is
  present afterwards.
\<close>

theorem failed_analysis_leaves_no_result:
  "uploaded sample_widgets = Some sample_upload \<and> analyze_clicked sample_widgets
   \<and> fst (render_sidebar sample_libs sample_client sample_widgets (sample_app\<lparr>api_calls := 1\<rparr>))
       = Inl Rerun
   \<and> session_state (snd (render_sidebar sample_libs sample_client sample_widgets
        (sample_app\<lparr>api_calls := 1\<rparr>))) ''analysis_result'' = Some PyNone
   \<and> \<not> result_present (snd (render_sidebar sample_libs sample_client sample_widgets
        (sample_app\<lparr>api_calls := 1\<rparr>)))"
proof -
  have r: "fst (generate_rice_report sample_libs sample_upload sample_client
      (sample_app\<lparr>api_calls := 1\<rparr>)) = Returns PyNone"
    by (simp add: sample_answer)
  note t = render_sidebar_trigger [OF sample_trigger(1-4) r]
  from t(2) have "session_state (snd (render_sidebar sample_libs sample_client sample_widgets
      (sample_app\<lparr>api_calls := 1\<rparr>))) ''analysis_result'' = Some PyNone"
    by simp
  with t(1) sample_trigger(1,2) show ?thesis
    by (simp add: result_present_def state_get_def)
qed

text \<open>
  C4, amended. The page tells two states apart by the truth test of the stored result: with
  no result (key absent, \<^verbatim>\<open>None\<close> or the empty text) the report block does nothing, with a
  result present (a non-empty text) it shows the report. A click on the analyze button
  stores what the pipeline returned, so a result is present afterwards exactly when the
  pipeline returned a non-empty text, and no result is present otherwise. A click on the
  clear button always removes the key and asks for a rerun, so no result is present
  afterwards, whatever was stored. The click is one on a button the run draws; the run fails
  to draw it in one case only, when \<^verbatim>\<open>doc.build\<close> raises on the stored text, and then it
  ends on that exception with the report on the page and no button to click.
\<close>

theorem result_present_transitions:
  "(\<not> result_present s \<longrightarrow> display_report L s = (Inr (), s))
   \<and> (result_present s \<longrightarrow>
        (container s, Markdown (report_markup (py_str (state_get s ''analysis_result''))) True)
          \<in> set (page (snd (display_report L s))))
   \<and> (clear_button_drawn L s \<longrightarrow>
        (container s, Button (''Clear Analysis '' @ wastebasket))
          \<in> set (page (snd (display_main_interface L w s))))
   \<and> (\<not> clear_button_drawn L s \<longrightarrow>
        (\<exists>t e. result_present s \<and> state_get s ''analysis_result'' = PyStr t
           \<and> build L (pdf_story t) = Raises e
           \<and> fst (display_main_interface L w s) = Inl (Crashed e)
           \<and> page (snd (display_main_interface L w s)) =
               page s @ [(container s, Title (sheaf_of_rice @ '' Rice Quality Analyzer'')),
                         (container s, Subheader ''AI-Powered Rice Grain Inspection''),
                         (container s, Markdown ''---'' False),
                         (container s, Markdown (''### '' @ clipboard @ '' Analysis Report'') False),
                         (container s, Markdown (report_markup t) True)]))
   \<and> (clear_clicked w \<and> clear_button_drawn L s \<longrightarrow>
        fst (display_main_interface L w s) = Inl Rerun
        \<and> session_state (snd (display_main_interface L w s))
            = (session_state s)(''analysis_result'' := None)
        \<and> \<not> result_present (snd (display_main_interface L w s)))
   \<and> (uploaded w = Some f \<and> analyze_clicked w \<and> image_open L f = Returns img
        \<and> st_image L img = Returns u
        \<and> fst (generate_rice_report L f cl s) = Returns report \<longrightarrow>
        fst (render_sidebar L cl w s) = Inl Rerun
        \<and> state_get (snd (render_sidebar L cl w s)) ''analysis_result'' = report
        \<and> (result_present (snd (render_sidebar L cl w s)) \<longleftrightarrow> truthy report))"
proof (intro conjI impI)
  assume "\<not> result_present s"
  then show "display_report L s = (Inr (), s)"
    by (simp add: result_present_def display_report_absent)
next
  assume "result_present s"
  then show "(container s, Markdown (report_markup (py_str (state_get s ''analysis_result''))) True)
      \<in> set (page (snd (display_report L s)))"
    by (simp add: result_present_def display_report_present)
next
  assume "clear_button_drawn L s"
  then show "(container s, Button (''Clear Analysis '' @ wastebasket))
      \<in> set (page (snd (display_main_interface L w s)))"
    by (rule display_main_interface_drawn(1))
next
  assume "\<not> clear_button_drawn L s"
  from display_main_interface_not_drawn [OF this, of w]
  show "\<exists>t e. result_present s \<and> state_get s ''analysis_result'' = PyStr t
      \<and> build L (pdf_story t) = Raises e
      \<and> fst (display_main_interface L w s) = Inl (Crashed e)
      \<and> page (snd (display_main_interface L w s)) =
          page s @ [(container s, Title (sheaf_of_rice @ '' Rice Quality Analyzer'')),
                    (container s, Subheader ''AI-Powered Rice Grain Inspection''),
                    (container s, Markdown ''---'' False),
                    (container s, Markdown (''### '' @ clipboard @ '' Analysis Report'') False),
                    (container s, Markdown (report_markup t) True)]"
    by (auto simp: result_present_def)
next
  assume a: "clear_clicked w \<and> clear_button_drawn L s"
  then have rerun: "fst (display_main_interface L w s) = Inl Rerun"
    and popped: "session_state (snd (display_main_interface L w s))
      = (session_state s)(''analysis_result'' := None)"
    using display_main_interface_drawn(2,3) [of L s w] by blast+
  from rerun show "fst (display_main_interface L w s) = Inl Rerun" .
  from popped show "session_state (snd (display_main_interface L w s))
      = (session_state s)(''analysis_result'' := None)" .
  from popped show "\<not> result_present (snd (display_main_interface L w s))"
    by (simp add: result_present_def state_get_def)
next
  assume a: "uploaded w = Some f \<and> analyze_clicked w \<and> image_open L f = Returns img
      \<and> st_image L img = Returns u \<and> fst (generate_rice_report L f cl s) = Returns report"
  then have t: "fst (render_sidebar L cl w s) = Inl Rerun"
    "session_state (snd (render_sidebar L cl w s))
       = (session_state s)(''analysis_result'' \<mapsto> report)"
    using render_sidebar_trigger [of w f L img u cl s report] by blast+
  from t(2) have g: "state_get (snd (render_sidebar L cl w s)) ''analysis_result'' = report"
    by (simp add: state_get_def)
  from t(1) show "fst (render_sidebar L cl w s) = Inl Rerun" .
  from g show "state_get (snd (render_sidebar L cl w s)) ''analysis_result'' = report" .
  from g show "result_present (snd (render_sidebar L cl w s)) \<longleftrightarrow> truthy report"
    by (simp add: result_present_def)
qed

text \<open>
  The hypotheses of the amended C4 hold in the sample session: the clear button is drawn over
  a stored report and a click on it removes the key, an empty session shows nothing, an
  answered analysis leaves a result present, and with a layout library that fails on the
  stored report the run ends before the button.
\<close>

theorem result_present_transitions_witness:
  "clear_clicked (sample_widgets\<lparr>clear_clicked := True\<rparr>)
   \<and> result_present shown_app
   \<and> clear_button_drawn sample_libs shown_app
   \<and> fst (display_main_interface sample_libs (sample_widgets\<lparr>clear_clicked := True\<rparr>) shown_app)
       = Inl Rerun
   \<and> session_state (snd (display_main_interface sample_libs
        (sample_widgets\<lparr>clear_clicked := True\<rparr>) shown_app)) ''analysis_result'' = None
   \<and> \<not> result_present sample_app
   \<and> display_report sample_libs sample_app = (Inr (), sample_app)
   \<and> fst (generate_rice_report sample_libs sample_upload sample_client sample_app)
       = Returns (PyStr ''Basmati'')
   \<and> result_present (snd (render_sidebar sample_libs sample_client sample_widgets sample_app))
   \<and> \<not> clear_button_drawn (sample_libs\<lparr>build := (\<lambda>story. Raises ''paraparser'')\<rparr>) shown_app
   \<and> fst (display_main_interface (sample_libs\<lparr>build := (\<lambda>story. Raises ''paraparser'')\<rparr>)
        (sample_widgets\<lparr>clear_clicked := True\<rparr>) shown_app) = Inl (Crashed ''paraparser'')"
proof -
  let ?w = "sample_widgets\<lparr>clear_clicked := True\<rparr>"
  let ?broken = "sample_libs\<lparr>build := (\<lambda>story. Raises ''paraparser'')\<rparr>"
  have clear: "clear_clicked ?w"
    by simp
  have shown: "result_present shown_app"
    by (simp add: result_present_def state_get_def shown_app_def)
  have drawn: "clear_button_drawn sample_libs shown_app"
    by (simp add: clear_button_drawn_def state_get_def shown_app_def sample_libs_def)
  from result_present_transitions [where s = shown_app and L = sample_libs and w = ?w]
    clear drawn
  have rerun: "fst (display_main_interface sample_libs ?w shown_app) = Inl Rerun"
    and cleared: "session_state (snd (display_main_interface sample_libs ?w shown_app))
      ''analysis_result'' = None"
    by simp_all
  have absent: "\<not> result_present sample_app"
    by (simp add: result_present_def state_get_def sample_app_def)
  from result_present_transitions [where s = sample_app and L = sample_libs] absent
  have hidden: "display_report sample_libs sample_app = (Inr (), sample_app)"
    by blast
  have answer: "fst (generate_rice_report sample_libs sample_upload sample_client sample_app)
      = Returns (PyStr ''Basmati'')"
    by (simp add: sample_answer sample_app_def)
  from result_present_transitions [where s = sample_app and L = sample_libs
      and w = sample_widgets and f = sample_upload and img = sample_image and u = "()"
      and cl = sample_client and report = "PyStr ''Basmati''"]
    sample_trigger(1-4) answer
  have present: "result_present (snd (render_sidebar sample_libs sample_client sample_widgets
      sample_app))"
    by simp
  have undrawn: "\<not> clear_button_drawn ?broken shown_app"
    by (simp add: clear_button_drawn_def state_get_def shown_app_def)
  from result_present_transitions [where s = shown_app and L = ?broken and w = ?w] undrawn
  have crashed: "fst (display_main_interface ?broken ?w shown_app) = Inl (Crashed ''paraparser'')"
    by auto
  from clear shown drawn rerun cleared absent hidden answer present undrawn crashed
  show ?thesis
    by blast
qed

end
